theory Spec2Isabelle
  imports Complex_Main
begin

section \<open>Hull-White one-factor model: embedding of the Python sources\<close>

text \<open>
  The development embeds \<^verbatim>\<open>formulas.py\<close>, \<^verbatim>\<open>pricing.py\<close>, \<^verbatim>\<open>data_structures.py\<close> and
  \<^verbatim>\<open>model.py\<close> of \<^verbatim>\<open>risk-interest-rate/src/models/hull_white_one_factor\<close>.

  Python's \<^verbatim>\<open>float\<close> values are IEEE doubles. They are modelled by \<^typ>\<open>real\<close>, and the
  arithmetic is exact except where the double arithmetic changes what the program does:
  \<^item> a quotient whose integer part fixes the length of an array (the number of time steps of
    the simulation, the number of dates of \<^verbatim>\<open>np.arange\<close>) is rounded to the nearest double,
    as are the entries of \<^verbatim>\<open>np.arange\<close>;
  \<^item> \<^verbatim>\<open>np.exp\<close>, and the quotient and the products that make the factor \<open>A\<close> and a bond
    price, give 0.0 when the exact result is too small for a double (underflow).
  A result beyond the largest double is \<^verbatim>\<open>inf\<close> in the program; the model keeps the real
  number, which has the same sign. NaN, and the reduced precision of subnormal doubles, are
  outside the model. \<^verbatim>\<open>np.log\<close> and \<^verbatim>\<open>np.sqrt\<close> are \<^const>\<open>ln\<close> and \<^const>\<open>sqrt\<close>; theorems that
  pass through a logarithm, a square root or a division by \<open>a\<close> carry the hypotheses
  (positive bond prices, \<open>0 < dt\<close>, \<open>0 < a\<close>) under which these are the program's.

  Python exceptions are values of \<open>py_exception\<close>; a function that can raise returns
  \<open>py_exception + 'a\<close>, with \<open>Inl\<close> for the raised exception.
\<close>

datatype py_exception =
    ValueError string
  | RuntimeError string
  | IndexError string
  | ZeroDivisionError string

text \<open>The name of the Python class of an exception value.\<close>

fun exception_class :: "py_exception \<Rightarrow> string" where
  "exception_class (ValueError msg) = ''ValueError''"
| "exception_class (RuntimeError msg) = ''RuntimeError''"
| "exception_class (IndexError msg) = ''IndexError''"
| "exception_class (ZeroDivisionError msg) = ''ZeroDivisionError''"

subsection \<open>Double arithmetic\<close>

text \<open>
  Rounding to the nearest double, ties to the even significand: a double has a significand
  of 53 bits, so a number \<open>x\<close> with \<open>2^e \<le> |x| < 2^(e+1)\<close> is rounded to a multiple of
  \<open>2^(e-52)\<close>. The range of the exponent is not bounded here.
\<close>

definition round_half_even :: "real \<Rightarrow> int" where
  "round_half_even y =
     (let f = \<lfloor>y\<rfloor>; d = y - of_int f
      in if d < 1 / 2 then f else if 1 / 2 < d then f + 1 else if even f then f else f + 1)"

definition float64_round :: "real \<Rightarrow> real" where
  "float64_round x =
     (if x = 0 then 0
      else (let e = \<lfloor>log 2 \<bar>x\<bar>\<rfloor>;
                ulp = 2 powr (of_int e - 52)
            in sgn x * of_int (round_half_even (\<bar>x\<bar> / ulp)) * ulp))"

text \<open>
  Underflow: the smallest positive double is \<open>2^-1074\<close>, and a result of magnitude at most
  \<open>2^-1075\<close> is rounded to zero. \<^verbatim>\<open>np.exp\<close> is the exponential with that underflow.
\<close>

definition underflow :: "real \<Rightarrow> real" where
  "underflow z = (if \<bar>z\<bar> \<le> 1 / 2 ^ 1075 then 0 else z)"

definition np_exp :: "real \<Rightarrow> real" where
  "np_exp x = underflow (exp x)"

subsection \<open>\<^verbatim>\<open>data_structures.py\<close>\<close>

text \<open>
  \<^verbatim>\<open>CalibratedHW1FModel\<close>. The fields \<^verbatim>\<open>a\<close> and \<^verbatim>\<open>sigma\<close> are named \<open>hw_a\<close> and
  \<open>hw_sigma\<close>, so that \<open>a\<close> and \<open>sigma\<close> stay available as variables.
\<close>

record CalibratedHW1FModel =
  hw_a :: real
  hw_sigma :: real
  theta_function :: "real \<Rightarrow> real"
  calibration_error :: real
  initial_zero_coupon_bond_pricer :: "real \<Rightarrow> real"

record HW1FSimulationResult =
  paths :: "real list list"
  time_grid :: "real list"

subsection \<open>\<^verbatim>\<open>formulas.py\<close>\<close>

definition B :: "real \<Rightarrow> real \<Rightarrow> real \<Rightarrow> real" where
  "B t T a = (if a = 0 then T - t else (1 / a) * (1 - np_exp (- a * (T - t))))"

text \<open>The finite-difference step \<^verbatim>\<open>eps = 1e-5\<close>.\<close>

definition eps :: real where
  "eps = 1 / 100000"

text \<open>
  The functions that call the initial pricer are written so that they return, with their
  value, the list of the maturities at which they called it, in the order of the calls: one
  call of the pricer is \<open>call_pricer\<close>, and a function that makes several calls appends
  their lists. The function of the source is the first component.
\<close>

definition call_pricer :: "(real \<Rightarrow> real) \<Rightarrow> real \<Rightarrow> real \<times> real list" where
  "call_pricer p0_pricer x = (p0_pricer x, [x])"

definition instantaneous_forward_rate_traced :: "real \<Rightarrow> (real \<Rightarrow> real) \<Rightarrow> real \<times> real list"
where
  "instantaneous_forward_rate_traced t_val p0_pricer =
     (if t_val < eps
      then (case call_pricer p0_pricer (t_val + eps) of (u, c1) \<Rightarrow>
            case call_pricer p0_pricer t_val of (v, c2) \<Rightarrow>
              (- (ln u - ln v) / eps, c1 @ c2))
      else (case call_pricer p0_pricer (t_val + eps) of (u, c1) \<Rightarrow>
            case call_pricer p0_pricer (t_val - eps) of (v, c2) \<Rightarrow>
              (- (ln u - ln v) / (2 * eps), c1 @ c2)))"

definition instantaneous_forward_rate :: "real \<Rightarrow> (real \<Rightarrow> real) \<Rightarrow> real" where
  "instantaneous_forward_rate t_val p0_pricer =
     fst (instantaneous_forward_rate_traced t_val p0_pricer)"

text \<open>
  \<^verbatim>\<open>A(t, T, calibrated_model)\<close>. For a Python float \<open>a = 0\<close> the division
  \<^verbatim>\<open>sigma**2 / (4 * a)\<close> raises \<^verbatim>\<open>ZeroDivisionError\<close>; \<open>A_traced\<close> is the value that the
  function returns when \<open>a\<close> is not zero.
\<close>

definition A_traced :: "real \<Rightarrow> real \<Rightarrow> CalibratedHW1FModel \<Rightarrow> real \<times> real list" where
  "A_traced t T calibrated_model =
     (let a = hw_a calibrated_model;
          sigma = hw_sigma calibrated_model
      in case call_pricer (initial_zero_coupon_bond_pricer calibrated_model) T of (P0T, c1) \<Rightarrow>
         case call_pricer (initial_zero_coupon_bond_pricer calibrated_model) t of (P0t, c2) \<Rightarrow>
         case instantaneous_forward_rate_traced t
                (initial_zero_coupon_bond_pricer calibrated_model) of (f0t, c3) \<Rightarrow>
           (let B_t_T = B t T a;
                term = B_t_T * f0t - (sigma\<^sup>2 / (4 * a)) * (1 - np_exp (- 2 * a * t)) * B_t_T
            in (underflow (underflow (P0T / P0t) * np_exp term), c1 @ c2 @ c3)))"

definition A :: "real \<Rightarrow> real \<Rightarrow> CalibratedHW1FModel \<Rightarrow> real" where
  "A t T calibrated_model = fst (A_traced t T calibrated_model)"

text \<open>
  The formula the specification gives for \<open>A(t, T, model)\<close>, written from the
  specification's words: the subtracted term carries \<open>B(t,T)\<close> squared.
\<close>

definition A_spec :: "real \<Rightarrow> real \<Rightarrow> CalibratedHW1FModel \<Rightarrow> real" where
  "A_spec t T calibrated_model =
     (let a = hw_a calibrated_model;
          sigma = hw_sigma calibrated_model;
          P = initial_zero_coupon_bond_pricer calibrated_model
      in (P T / P t) *
         exp (B t T a * instantaneous_forward_rate t P
              - (sigma\<^sup>2 / (4 * a)) * (1 - exp (- 2 * a * t)) * (B t T a)\<^sup>2))"

definition derivative_of_instantaneous_forward_rate_traced ::
  "(real \<Rightarrow> real) \<Rightarrow> real \<Rightarrow> real \<times> real list"
where
  "derivative_of_instantaneous_forward_rate_traced initial_pricer t_val =
     (case instantaneous_forward_rate_traced (t_val + eps) initial_pricer of (u, c1) \<Rightarrow>
      case instantaneous_forward_rate_traced (t_val - eps) initial_pricer of (v, c2) \<Rightarrow>
        ((u - v) / (2 * eps), c1 @ c2))"

definition theta_traced :: "real \<Rightarrow> real \<Rightarrow> (real \<Rightarrow> real) \<Rightarrow> real \<Rightarrow> real \<times> real list" where
  "theta_traced a sigma initial_pricer t =
     (case instantaneous_forward_rate_traced t initial_pricer of (f_0_t, c1) \<Rightarrow>
      case derivative_of_instantaneous_forward_rate_traced initial_pricer t of (df_0_t, c2) \<Rightarrow>
        (df_0_t + a * f_0_t + (sigma\<^sup>2 / (2 * a)) * (1 - np_exp (- 2 * a * t)), c1 @ c2))"

text \<open>\<^verbatim>\<open>generate_theta_function\<close> returns the closure \<^verbatim>\<open>theta\<close>.\<close>

definition generate_theta_function :: "real \<Rightarrow> real \<Rightarrow> (real \<Rightarrow> real) \<Rightarrow> (real \<Rightarrow> real)" where
  "generate_theta_function a sigma initial_pricer =
     (\<lambda>t. fst (theta_traced a sigma initial_pricer t))"

subsection \<open>\<^verbatim>\<open>pricing.py\<close>: zero-coupon bonds\<close>

definition price_zcb :: "real \<Rightarrow> real \<Rightarrow> real \<Rightarrow> CalibratedHW1FModel \<Rightarrow> real" where
  "price_zcb t T r_t calibrated_model =
     (let A_t_T = A t T calibrated_model;
          B_t_T = B t T (hw_a calibrated_model)
      in underflow (A_t_T * np_exp (- B_t_T * r_t)))"

subsection \<open>Library routines\<close>

text \<open>
  \<^verbatim>\<open>numpy\<close> and \<^verbatim>\<open>scipy\<close> are not part of the repository. What the sources use of them is
  modelled as follows.

  \<^verbatim>\<open>np.arange(start, stop, step)\<close> on floats computes its length as the ceiling of the
  double quotient \<open>(stop - start) / step\<close> (no entries when that is not positive), and a zero
  step raises \<^verbatim>\<open>ZeroDivisionError\<close> in that division. The first entry is \<open>start\<close>, the
  second the double \<open>start + step\<close>; with \<open>delta\<close> the double difference of the two, the
  \<open>i\<close>-th entry is the double \<open>start + i * delta\<close>. The argument \<open>stop\<close> is a double: the
  sources pass the sum \<^verbatim>\<open>tenor_end + fixed_frequency\<close>, which is rounded on entry.
\<close>

definition np_arange :: "real \<Rightarrow> real \<Rightarrow> real \<Rightarrow> py_exception + real list" where
  "np_arange start stop step =
     (if step = 0 then Inl (ZeroDivisionError ''float division by zero'')
      else
        (let len = nat \<lceil>float64_round (float64_round (float64_round stop - start) / step)\<rceil>;
             second = float64_round (start + step);
             delta = float64_round (second - start)
         in Inr (map (\<lambda>i. if i = 0 then start
                          else if i = 1 then second
                          else float64_round (start + float64_round (real i * delta)))
                   [0 ..< len])))"

text \<open>
  \<^verbatim>\<open>np.linspace(start, stop, num)\<close> with the default \<^verbatim>\<open>endpoint=True\<close>: \<open>num\<close> evenly spaced
  samples from \<open>start\<close> to \<open>stop\<close>; a negative \<open>num\<close> is a \<^verbatim>\<open>ValueError\<close>.
\<close>

definition np_linspace :: "real \<Rightarrow> real \<Rightarrow> int \<Rightarrow> py_exception + real list" where
  "np_linspace start stop num =
     (if num < 0 then Inl (ValueError ''Number of samples must be non-negative'')
      else if num = 1 then Inr [start]
      else Inr (map (\<lambda>i. start + real i * ((stop - start) / real_of_int (num - 1)))
                  [0 ..< nat num]))"

text \<open>
  \<^verbatim>\<open>scipy.stats.norm.cdf\<close> is a parameter \<open>norm_cdf\<close> of the pricing functions. The two
  properties of the standard normal distribution function that the development uses are
  collected in \<open>norm_cdf_contract\<close>.
\<close>

definition norm_cdf_contract :: "(real \<Rightarrow> real) \<Rightarrow> bool" where
  "norm_cdf_contract norm_cdf \<longleftrightarrow>
     (\<forall>x. 0 < norm_cdf x) \<and> (\<forall>x y. x < y \<longrightarrow> norm_cdf x < norm_cdf y)"

text \<open>
  \<^verbatim>\<open>scipy.optimize.brentq(f, a, b)\<close> first checks the bracket: when \<open>f(a)\<close> and \<open>f(b)\<close> are
  both positive or both negative it raises \<^verbatim>\<open>ValueError\<close>. Otherwise it iterates; the
  iteration is a parameter \<open>solve\<close>, which returns a point or raises (a \<^verbatim>\<open>RuntimeError\<close>
  when it does not converge). \<open>root_solver_contract\<close> says that a point returned by the
  iteration is a zero of \<open>f\<close> inside the bracket, and that the only exception of the
  iteration is that \<^verbatim>\<open>RuntimeError\<close>.
\<close>

type_synonym root_solver = "(real \<Rightarrow> real) \<Rightarrow> real \<Rightarrow> real \<Rightarrow> py_exception + real"

definition brentq :: "root_solver \<Rightarrow> (real \<Rightarrow> real) \<Rightarrow> real \<Rightarrow> real \<Rightarrow> py_exception + real" where
  "brentq solve f a b =
     (if f a * f b > 0 then Inl (ValueError ''f(a) and f(b) must have different signs'')
      else solve f a b)"

definition root_solver_contract :: "root_solver \<Rightarrow> bool" where
  "root_solver_contract solve \<longleftrightarrow>
     (\<forall>f a b. case solve f a b of
                Inr x \<Rightarrow> a \<le> x \<and> x \<le> b \<and> f x = 0
              | Inl e \<Rightarrow> exception_class e = ''RuntimeError'')"

text \<open>
  Two concrete stand-ins, used where a closed statement needs some \<open>norm_cdf\<close> and some
  \<open>solve\<close>: the logistic function, which is positive and strictly increasing, and an
  iteration that only recognises a zero at an end of the bracket.
\<close>

definition logistic_cdf :: "real \<Rightarrow> real" where
  "logistic_cdf x = 1 / (1 + exp (- x))"

definition endpoint_solver :: root_solver where
  "endpoint_solver f a b =
     (if a \<le> b \<and> f a = 0 then Inr a
      else if a \<le> b \<and> f b = 0 then Inr b
      else Inl (RuntimeError ''Failed to converge''))"

subsection \<open>\<^verbatim>\<open>pricing.py\<close>: options and swaptions\<close>

text \<open>The apostrophes inside the messages of the exceptions are left out.\<close>

definition price_european_option_on_zcb ::
  "(real \<Rightarrow> real) \<Rightarrow> real \<Rightarrow> real \<Rightarrow> real \<Rightarrow> CalibratedHW1FModel \<Rightarrow> string \<Rightarrow> py_exception + real"
where
  "price_european_option_on_zcb norm_cdf K T S calibrated_model option_type =
     (let a = hw_a calibrated_model;
          sigma = hw_sigma calibrated_model;
          P0S = initial_zero_coupon_bond_pricer calibrated_model S;
          P0T = initial_zero_coupon_bond_pricer calibrated_model T;
          sigma_p = sigma * sqrt ((1 - np_exp (- 2 * a * T)) / (2 * a)) * B T S a;
          h = (ln (P0S / (P0T * K)) + (1 / 2) * sigma_p\<^sup>2) / sigma_p
      in if option_type = ''call''
         then Inr (P0S * norm_cdf h - K * P0T * norm_cdf (h - sigma_p))
         else if option_type = ''put''
         then Inr (K * P0T * norm_cdf (sigma_p - h) - P0S * norm_cdf (- h))
         else Inl (ValueError ''option_type must be call or put''))"

text \<open>
  Step 1 of \<^verbatim>\<open>price_european_swaption\<close>: the dates of \<^verbatim>\<open>np.arange\<close> up to
  \<open>tenor_end + fixed_frequency\<close>, of which those strictly after \<open>expiry\<close> are kept.
\<close>

definition fixed_payment_dates :: "real \<Rightarrow> real \<Rightarrow> real \<Rightarrow> real \<Rightarrow> py_exception + real list" where
  "fixed_payment_dates expiry tenor_start tenor_end fixed_frequency =
     (case np_arange tenor_start (tenor_end + fixed_frequency) fixed_frequency of
        Inl e \<Rightarrow> Inl e
      | Inr dates \<Rightarrow> Inr (filter (\<lambda>d. d > expiry) dates))"

text \<open>Step 2: the closure \<^verbatim>\<open>swap_pv_at_expiry\<close>; the loop over the dates adds to \<^verbatim>\<open>pv_fixed\<close>.\<close>

definition swap_pv_at_expiry ::
  "real list \<Rightarrow> real \<Rightarrow> real \<Rightarrow> real \<Rightarrow> real \<Rightarrow> real \<Rightarrow> CalibratedHW1FModel \<Rightarrow> real \<Rightarrow> real"
where
  "swap_pv_at_expiry dates swap_rate expiry tenor_start tenor_end fixed_frequency
       calibrated_model r_star =
     (let pv_fixed =
            foldl (\<lambda>pv t_i. pv + fixed_frequency * swap_rate
                                   * price_zcb expiry t_i r_star calibrated_model) 0 dates;
          pv_floating = price_zcb expiry tenor_start r_star calibrated_model
                        - price_zcb expiry tenor_end r_star calibrated_model
      in pv_fixed - pv_floating)"

text \<open>
  Step 4: the loop that adds one bond option per remaining date to \<^verbatim>\<open>swaption_price\<close>.
  The \<^verbatim>\<open>option_type\<close> is tested inside the loop body, once per date.
\<close>

fun decompose_swaption ::
  "(real \<Rightarrow> real) \<Rightarrow> real \<Rightarrow> real \<Rightarrow> real \<Rightarrow> CalibratedHW1FModel \<Rightarrow> string \<Rightarrow> real
     \<Rightarrow> real list \<Rightarrow> real \<Rightarrow> py_exception + real"
where
  "decompose_swaption norm_cdf swap_rate expiry fixed_frequency calibrated_model option_type
       r_star [] swaption_price = Inr swaption_price"
| "decompose_swaption norm_cdf swap_rate expiry fixed_frequency calibrated_model option_type
       r_star (t_i # dates) swaption_price =
     (if option_type = ''payer'' then
        (case price_european_option_on_zcb norm_cdf
                (price_zcb expiry t_i r_star calibrated_model) expiry t_i calibrated_model ''call''
         of Inl e \<Rightarrow> Inl e
          | Inr v \<Rightarrow>
              decompose_swaption norm_cdf swap_rate expiry fixed_frequency calibrated_model
                option_type r_star dates (swaption_price + fixed_frequency * swap_rate * v))
      else if option_type = ''receiver'' then
        (case price_european_option_on_zcb norm_cdf
                (price_zcb expiry t_i r_star calibrated_model) expiry t_i calibrated_model ''put''
         of Inl e \<Rightarrow> Inl e
          | Inr v \<Rightarrow>
              decompose_swaption norm_cdf swap_rate expiry fixed_frequency calibrated_model
                option_type r_star dates (swaption_price + fixed_frequency * swap_rate * v))
      else Inl (ValueError ''option_type must be payer or receiver''))"

definition price_european_swaption ::
  "(real \<Rightarrow> real) \<Rightarrow> root_solver \<Rightarrow> real \<Rightarrow> real \<Rightarrow> real \<Rightarrow> real \<Rightarrow> real
     \<Rightarrow> CalibratedHW1FModel \<Rightarrow> string \<Rightarrow> py_exception + real"
where
  "price_european_swaption norm_cdf solve swap_rate expiry tenor_start tenor_end fixed_frequency
       calibrated_model option_type =
     (case fixed_payment_dates expiry tenor_start tenor_end fixed_frequency of
        Inl e \<Rightarrow> Inl e
      | Inr dates \<Rightarrow>
          if length dates = 0 then Inr 0
          else
            (case brentq solve
                    (swap_pv_at_expiry dates swap_rate expiry tenor_start tenor_end
                       fixed_frequency calibrated_model) (- (1 / 2)) (1 / 2)
             of Inl (ValueError msg) \<Rightarrow> Inr 0
              | Inl e \<Rightarrow> Inl e
              | Inr r_star \<Rightarrow>
                  decompose_swaption norm_cdf swap_rate expiry fixed_frequency calibrated_model
                    option_type r_star dates 0))"

subsection \<open>\<^verbatim>\<open>model.py\<close>: calibration\<close>

text \<open>
  A market swaption is a dictionary; its keys are the fields of the record (prefixed with
  \<open>ms_\<close>). The key \<^verbatim>\<open>option_type\<close> is optional: \<^verbatim>\<open>swaption.get("option_type", "payer")\<close>.
\<close>

record MarketSwaption =
  ms_swap_rate :: real
  ms_expiry :: real
  ms_tenor_start :: real
  ms_tenor_end :: real
  ms_fixed_frequency :: real
  ms_market_price :: real
  ms_option_type :: "string option"

text \<open>The objective returns a float or \<^verbatim>\<open>np.inf\<close>.\<close>

datatype objective_value = Finite real | Infinity

text \<open>The loop of \<^verbatim>\<open>objective_function\<close> that adds the squared pricing errors to \<^verbatim>\<open>total_error\<close>.\<close>

fun total_error_loop ::
  "(real \<Rightarrow> real) \<Rightarrow> root_solver \<Rightarrow> CalibratedHW1FModel \<Rightarrow> MarketSwaption list \<Rightarrow> real
     \<Rightarrow> py_exception + real"
where
  "total_error_loop norm_cdf solve temp_calibrated_model [] total_error = Inr total_error"
| "total_error_loop norm_cdf solve temp_calibrated_model (swaption # market_swaptions) total_error =
     (case price_european_swaption norm_cdf solve
             (ms_swap_rate swaption) (ms_expiry swaption) (ms_tenor_start swaption)
             (ms_tenor_end swaption) (ms_fixed_frequency swaption) temp_calibrated_model
             (case ms_option_type swaption of None \<Rightarrow> ''payer'' | Some ot \<Rightarrow> ot)
      of Inl e \<Rightarrow> Inl e
       | Inr model_price \<Rightarrow>
           total_error_loop norm_cdf solve temp_calibrated_model market_swaptions
             (total_error + (model_price - ms_market_price swaption)\<^sup>2))"

definition objective_function ::
  "(real \<Rightarrow> real) \<Rightarrow> root_solver \<Rightarrow> (real \<Rightarrow> real) \<Rightarrow> MarketSwaption list \<Rightarrow> real \<times> real
     \<Rightarrow> py_exception + objective_value"
where
  "objective_function norm_cdf solve initial_pricer market_swaptions params =
     (case params of (a, sigma) \<Rightarrow>
        if a \<le> 0 \<or> sigma \<le> 0 then Inr Infinity
        else
          (let theta_func = generate_theta_function a sigma initial_pricer;
               temp_calibrated_model =
                 \<lparr> hw_a = a, hw_sigma = sigma, theta_function = theta_func,
                   calibration_error = 0, initial_zero_coupon_bond_pricer = initial_pricer \<rparr>
           in case total_error_loop norm_cdf solve temp_calibrated_model market_swaptions 0 of
                Inl e \<Rightarrow> Inl e
              | Inr total_error \<Rightarrow> Inr (Finite total_error)))"

text \<open>
  \<^verbatim>\<open>scipy.optimize.minimize\<close> is a parameter: it takes the objective, the initial guess, the
  method and the bounds, and returns an \<^verbatim>\<open>OptimizeResult\<close> (of which the code reads
  \<^verbatim>\<open>success\<close>, \<^verbatim>\<open>message\<close>, \<^verbatim>\<open>x\<close> and \<^verbatim>\<open>fun\<close>) or raises what the objective raised.
\<close>

record OptimizeResult =
  success :: bool
  message :: string
  result_x :: "real \<times> real"
  result_fun :: real

type_synonym minimizer =
  "(real \<times> real \<Rightarrow> py_exception + objective_value) \<Rightarrow> real \<times> real \<Rightarrow> string
     \<Rightarrow> (real \<times> real option) list \<Rightarrow> py_exception + OptimizeResult"

definition calibrate_logic ::
  "minimizer \<Rightarrow> (real \<Rightarrow> real) \<Rightarrow> root_solver \<Rightarrow> (real \<Rightarrow> real) \<Rightarrow> MarketSwaption list
     \<Rightarrow> py_exception + CalibratedHW1FModel"
where
  "calibrate_logic minimize norm_cdf solve initial_pricer market_swaptions =
     (let initial_guess = (1 / 10, 1 / 100);
          bounds = [(1 / 100000, None), (1 / 100000, None)]
      in case minimize (objective_function norm_cdf solve initial_pricer market_swaptions)
                initial_guess ''L-BFGS-B'' bounds
         of Inl e \<Rightarrow> Inl e
          | Inr result \<Rightarrow>
              if \<not> success result
              then Inl (RuntimeError (''Calibration failed: '' @ message result))
              else (case result_x result of (calibrated_a, calibrated_sigma) \<Rightarrow>
                      Inr \<lparr> hw_a = calibrated_a, hw_sigma = calibrated_sigma,
                            theta_function =
                              generate_theta_function calibrated_a calibrated_sigma initial_pricer,
                            calibration_error = result_fun result,
                            initial_zero_coupon_bond_pricer = initial_pricer \<rparr>))"

text \<open>
  A stand-in for an optimizer run that does not converge: it reports failure with one of the
  messages of L-BFGS-B, whatever the objective.
\<close>

definition failing_minimize :: minimizer where
  "failing_minimize objective x0 method bounds =
     Inr \<lparr> success = False, message = ''ABNORMAL_TERMINATION_IN_LNSRCH'',
           result_x = x0, result_fun = 0 \<rparr>"

subsection \<open>\<^verbatim>\<open>model.py\<close>: simulation\<close>

text \<open>The dictionary \<^verbatim>\<open>scenario_definition\<close>, its keys prefixed with \<open>sd_\<close>.\<close>

record scenario_definition =
  sd_num_paths :: nat
  sd_time_horizon :: real
  sd_dt :: real

text \<open>Python's \<^verbatim>\<open>int(x)\<close> on a float truncates towards zero.\<close>

definition py_int :: "real \<Rightarrow> int" where
  "py_int x = (if 0 \<le> x then \<lfloor>x\<rfloor> else \<lceil>x\<rceil>)"

text \<open>
  The body of the loop on one row: \<^verbatim>\<open>r_t + drift + stochastic\<close>, elementwise. \<^verbatim>\<open>numpy\<close>
  broadcasts a row of shocks of length one; a row of any other length that does not match
  the paths is a \<^verbatim>\<open>ValueError\<close>.
\<close>

definition euler_row ::
  "real \<Rightarrow> real \<Rightarrow> real \<Rightarrow> real \<Rightarrow> real list \<Rightarrow> real list \<Rightarrow> py_exception + real list"
where
  "euler_row theta_t a sigma dt r_t dW_t =
     (if length dW_t = length r_t
      then Inr (map (\<lambda>(r, w). r + (theta_t - a * r) * dt + sigma * sqrt dt * w) (zip r_t dW_t))
      else if length dW_t = 1
      then Inr (map (\<lambda>r. r + (theta_t - a * r) * dt + sigma * sqrt dt * hd dW_t) r_t)
      else Inl (ValueError ''operands could not be broadcast together''))"

text \<open>
  The loop \<^verbatim>\<open>for i in range(num_timesteps - 1)\<close>, over the list of its indices. The array
  \<^verbatim>\<open>paths\<close> is updated in place: row \<open>i + 1\<close> is overwritten. Reading row \<open>i\<close> of the shocks
  raises \<^verbatim>\<open>IndexError\<close> when there is no such row.
\<close>

fun simulate_loop ::
  "CalibratedHW1FModel \<Rightarrow> real \<Rightarrow> real list \<Rightarrow> real list list \<Rightarrow> nat list \<Rightarrow> real list list
     \<Rightarrow> py_exception + real list list"
where
  "simulate_loop calibrated_model dt grid correlated_shocks [] pths = Inr pths"
| "simulate_loop calibrated_model dt grid correlated_shocks (i # rest) pths =
     (let t = grid ! i;
          r_t = pths ! i
      in if length correlated_shocks \<le> i then Inl (IndexError ''index is out of bounds for axis 0'')
         else
           (case euler_row (theta_function calibrated_model t) (hw_a calibrated_model)
                   (hw_sigma calibrated_model) dt r_t (correlated_shocks ! i)
            of Inl e \<Rightarrow> Inl e
             | Inr row \<Rightarrow>
                 simulate_loop calibrated_model dt grid correlated_shocks rest
                   (pths[i + 1 := row])))"

text \<open>
  \<^verbatim>\<open>num_timesteps = int(time_horizon / dt) + 1\<close>: the quotient is the double quotient, which
  \<^verbatim>\<open>int\<close> truncates. (A quotient beyond the largest double would need more rows of shocks
  than an array can hold.)
\<close>

definition simulate_logic ::
  "CalibratedHW1FModel \<Rightarrow> scenario_definition \<Rightarrow> real list list
     \<Rightarrow> py_exception + HW1FSimulationResult"
where
  "simulate_logic calibrated_model scenario correlated_shocks =
     (let num_paths = sd_num_paths scenario;
          time_horizon = sd_time_horizon scenario;
          dt = sd_dt scenario
      in if dt = 0 then Inl (ZeroDivisionError ''float division by zero'')
         else
           (let num_timesteps = py_int (float64_round (time_horizon / dt)) + 1
            in case np_linspace 0 time_horizon num_timesteps of
                 Inl e \<Rightarrow> Inl e
               | Inr grid \<Rightarrow>
                   (let r0 = instantaneous_forward_rate eps
                               (initial_zero_coupon_bond_pricer calibrated_model);
                        zeros = replicate (nat num_timesteps) (replicate num_paths 0)
                    in if num_timesteps = 0
                       then Inl (IndexError ''index 0 is out of bounds for axis 0 with size 0'')
                       else
                         (case simulate_loop calibrated_model dt grid correlated_shocks
                                 [0 ..< nat (num_timesteps - 1)]
                                 (zeros[0 := replicate num_paths r0])
                          of Inl e \<Rightarrow> Inl e
                           | Inr pths \<Rightarrow> Inr \<lparr> paths = pths, time_grid = grid \<rparr>))))"

subsection \<open>The fixture of the test suite\<close>

text \<open>
  \<^verbatim>\<open>mock_initial_zcb_pricer\<close> and \<^verbatim>\<open>mock_calibrated_model_for_logic\<close> of
  \<^verbatim>\<open>test_hull_white_one_factor.py\<close>: the flat curve \<open>P(0,t) = exp(-0.05 t)\<close> with
  \<open>a = 0.1\<close> and \<open>sigma = 0.01\<close>.
\<close>

definition mock_initial_zcb_pricer :: "real \<Rightarrow> real" where
  "mock_initial_zcb_pricer t = np_exp (- (1 / 20) * t)"

definition mock_calibrated_model :: CalibratedHW1FModel where
  "mock_calibrated_model =
     \<lparr> hw_a = 1 / 10, hw_sigma = 1 / 100,
       theta_function = generate_theta_function (1 / 10) (1 / 100) mock_initial_zcb_pricer,
       calibration_error = 0,
       initial_zero_coupon_bond_pricer = mock_initial_zcb_pricer \<rparr>"

section \<open>Properties\<close>

subsection \<open>Double arithmetic\<close>

lemma underflow_nonneg: "0 \<le> z \<Longrightarrow> 0 \<le> underflow z"
  by (simp add: underflow_def)

lemma underflow_id: "1 / 2 ^ 1075 < \<bar>z\<bar> \<Longrightarrow> underflow z = z"
  by (simp add: underflow_def)

lemma underflow_zero_iff: "underflow z = 0 \<longleftrightarrow> \<bar>z\<bar> \<le> 1 / 2 ^ 1075"
  by (auto simp add: underflow_def)

lemma underflow_pos_iff: "0 < underflow z \<longleftrightarrow> 1 / 2 ^ 1075 < z"
  by (auto simp add: underflow_def)

lemma exp_537_less: "exp (537 :: real) < 2 ^ 1075"
proof -
  have "exp (537 :: real) = exp 1 ^ 537"
    using exp_of_nat_mult [of 537 "1 :: real"] by simp
  also have "\<dots> \<le> (4 :: real) ^ 537"
    using exp_le by (intro power_mono) simp_all
  also have "(4 :: real) ^ 537 = (2 ^ 2) ^ 537" by simp
  also have "\<dots> = (2 :: real) ^ 1074" by (simp only: power_mult [symmetric]) simp
  also have "\<dots> < (2 :: real) ^ 1075" by (intro power_strict_increasing) simp_all
  finally show ?thesis .
qed

lemma exp_not_underflow:
  assumes "- 537 \<le> x"
  shows "1 / 2 ^ 1075 < exp (x :: real)"
proof -
  have "exp (- x) \<le> exp 537" using assms by simp
  then have "exp (- x) < 2 ^ 1075" using exp_537_less by linarith
  then have "1 / 2 ^ 1075 < 1 / exp (- x)"
    by (intro divide_strict_left_mono) simp_all
  then show ?thesis by (simp add: exp_minus field_simps)
qed

lemma np_exp_eq: "- 537 \<le> x \<Longrightarrow> np_exp x = exp x"
  using exp_not_underflow [of x] by (simp add: np_exp_def underflow_def)

lemma np_exp_nonneg: "0 \<le> np_exp x"
  by (simp add: np_exp_def underflow_def)

lemma np_exp_0: "np_exp 0 = 1"
  by (simp add: np_exp_eq)

lemma round_half_even_of_int: "round_half_even (of_int k) = k"
  by (simp add: round_half_even_def)

lemma round_half_even_nonneg: "0 \<le> y \<Longrightarrow> 0 \<le> round_half_even y"
  by (simp add: round_half_even_def Let_def)

lemma float64_round_nonneg:
  assumes "0 \<le> x"
  shows "0 \<le> float64_round x"
proof (cases "x = 0")
  case True
  then show ?thesis by (simp add: float64_round_def)
next
  case False
  with assms have "0 < x" by simp
  then have "0 \<le> round_half_even (\<bar>x\<bar> / 2 powr (of_int \<lfloor>log 2 \<bar>x\<bar>\<rfloor> - 52))"
    by (intro round_half_even_nonneg) simp
  with \<open>0 < x\<close> show ?thesis by (simp add: float64_round_def Let_def)
qed

text \<open>Rounding a positive number whose binary exponent is known.\<close>

lemma float64_round_exponent:
  assumes "0 < x" "2 powr (of_int e) \<le> x" "x < 2 powr (of_int e + 1)"
  shows "float64_round x
         = of_int (round_half_even (x / 2 powr (of_int e - 52))) * 2 powr (of_int e - 52)"
proof -
  have "\<lfloor>log 2 x\<rfloor> = e"
    using assms by (subst floor_log_eq_powr_iff) simp_all
  then show ?thesis using assms(1) by (simp add: float64_round_def Let_def)
qed

lemma float64_round_exact:
  assumes "0 < x" "2 powr (of_int e) \<le> x" "x < 2 powr (of_int e + 1)"
    and "x / 2 powr (of_int e - 52) = of_int k"
  shows "float64_round x = x"
proof -
  have "float64_round x = of_int k * 2 powr (of_int e - 52)"
    using float64_round_exponent [OF assms(1-3)] by (simp add: assms(4) round_half_even_of_int)
  also have "\<dots> = x" using assms(4) by (simp add: field_simps)
  finally show ?thesis .
qed

lemma float64_round_small:
  "float64_round 1 = 1" "float64_round 2 = 2" "float64_round 3 = 3"
  "float64_round (5 / 2) = 5 / 2" "float64_round (7 / 2) = 7 / 2"
proof -
  show "float64_round 1 = 1"
    by (rule float64_round_exact [of 1 0 "2 ^ 52"]) (simp_all add: powr_neg_numeral)
  show "float64_round 2 = 2"
    by (rule float64_round_exact [of 2 1 "2 ^ 52"]) (simp_all add: powr_neg_numeral)
  show "float64_round 3 = 3"
    by (rule float64_round_exact [of 3 1 "3 * 2 ^ 51"]) (simp_all add: powr_neg_numeral)
  show "float64_round (5 / 2) = 5 / 2"
    by (rule float64_round_exact [of "5 / 2" 1 "5 * 2 ^ 50"]) (simp_all add: powr_neg_numeral)
  show "float64_round (7 / 2) = 7 / 2"
    by (rule float64_round_exact [of "7 / 2" 1 "7 * 2 ^ 50"]) (simp_all add: powr_neg_numeral)
qed

text \<open>
  The double nearest to 0.1 is \<open>3602879701896397 / 2^55\<close>, the double nearest to 0.3 is
  \<open>5404319552844595 / 2^54\<close>. The double quotient \<open>1.0 / 0.1\<close> is 10, though the exact
  quotient of the two doubles is below 10; the double quotient \<open>0.3 / 0.1\<close> is below 3.
\<close>

lemma float64_round_1_over_01:
  "float64_round (1 / (3602879701896397 / 2 ^ 55)) = 10"
proof -
  let ?q = "1 / (3602879701896397 / 2 ^ 55) :: real"
  have "float64_round ?q
      = of_int (round_half_even (?q / 2 powr (of_int 3 - 52))) * 2 powr (of_int 3 - 52)"
    by (rule float64_round_exponent) (simp_all add: powr_neg_numeral)
  also have "round_half_even (?q / 2 powr (of_int 3 - 52)) = 5629499534213120"
    by (simp add: round_half_even_def Let_def powr_neg_numeral)
  finally show ?thesis by (simp add: powr_neg_numeral)
qed

lemma float64_round_03_over_01:
  "float64_round ((5404319552844595 / 2 ^ 54) / (3602879701896397 / 2 ^ 55))
   = 6755399441055743 / 2 ^ 51"
proof -
  let ?q = "(5404319552844595 / 2 ^ 54) / (3602879701896397 / 2 ^ 55) :: real"
  have "float64_round ?q
      = of_int (round_half_even (?q / 2 powr (of_int 1 - 52))) * 2 powr (of_int 1 - 52)"
    by (rule float64_round_exponent) (simp_all add: powr_neg_numeral)
  also have "round_half_even (?q / 2 powr (of_int 1 - 52)) = 6755399441055743"
    by (simp add: round_half_even_def Let_def powr_neg_numeral)
  finally show ?thesis by (simp add: powr_neg_numeral)
qed

text \<open>
  \<^verbatim>\<open>np.arange(0.1, 0.4, 0.1)\<close>, with each number the double nearest to it: the double
  difference \<open>0.4 - 0.1\<close> is above three tenths, the double quotient is above 3, and the
  array has four entries.
\<close>

lemma np_arange_rounded_length:
  "\<exists>dates. np_arange (3602879701896397 / 2 ^ 55) (3602879701896397 / 2 ^ 53)
             (3602879701896397 / 2 ^ 55) = Inr dates \<and> length dates = 4"
proof -
  have s: "float64_round (3602879701896397 / 2 ^ 53) = 3602879701896397 / 2 ^ 53"
    by (rule float64_round_exact [of _ "- 2" 7205759403792794])
      (simp_all add: powr_neg_numeral)
  let ?d = "3602879701896397 / 2 ^ 53 - 3602879701896397 / 2 ^ 55 :: real"
  have "float64_round ?d
      = of_int (round_half_even (?d / 2 powr (of_int (- 2) - 52))) * 2 powr (of_int (- 2) - 52)"
    by (rule float64_round_exponent) (simp_all add: powr_neg_numeral)
  also have "round_half_even (?d / 2 powr (of_int (- 2) - 52)) = 5404319552844596"
    by (simp add: round_half_even_def Let_def powr_neg_numeral)
  finally have d: "float64_round ?d = 5404319552844596 / 2 ^ 54"
    by (simp add: powr_neg_numeral)
  let ?q = "(5404319552844596 / 2 ^ 54) / (3602879701896397 / 2 ^ 55) :: real"
  have "float64_round ?q
      = of_int (round_half_even (?q / 2 powr (of_int 1 - 52))) * 2 powr (of_int 1 - 52)"
    by (rule float64_round_exponent) (simp_all add: powr_neg_numeral)
  also have "round_half_even (?q / 2 powr (of_int 1 - 52)) = 6755399441055745"
    by (simp add: round_half_even_def Let_def powr_neg_numeral)
  finally have q: "float64_round ?q = 6755399441055745 / 2 ^ 51"
    by (simp add: powr_neg_numeral)
  have "\<lceil>6755399441055745 / 2 ^ 51 :: real\<rceil> = 4"
    by (simp add: ceiling_eq_iff)
  then show ?thesis
    unfolding np_arange_def Let_def s d q by simp
qed

subsection \<open>The functions of the source and their calls of the pricer\<close>

lemma eps_pos: "0 < eps"
  by (simp add: eps_def)

lemma instantaneous_forward_rate_eq:
  "instantaneous_forward_rate t_val p0_pricer =
     (if t_val < eps
      then - (ln (p0_pricer (t_val + eps)) - ln (p0_pricer t_val)) / eps
      else - (ln (p0_pricer (t_val + eps)) - ln (p0_pricer (t_val - eps))) / (2 * eps))"
  by (simp add: instantaneous_forward_rate_def instantaneous_forward_rate_traced_def
      call_pricer_def)

lemma instantaneous_forward_rate_calls:
  "snd (instantaneous_forward_rate_traced t_val p0_pricer) =
     (if t_val < eps then [t_val + eps, t_val] else [t_val + eps, t_val - eps])"
  by (simp add: instantaneous_forward_rate_traced_def call_pricer_def)

lemma instantaneous_forward_rate_traced_fst:
  "fst (instantaneous_forward_rate_traced t_val p0_pricer)
   = instantaneous_forward_rate t_val p0_pricer"
  by (simp add: instantaneous_forward_rate_def)

lemma generate_theta_function_eq:
  "generate_theta_function a sigma initial_pricer t =
     (instantaneous_forward_rate (t + eps) initial_pricer
      - instantaneous_forward_rate (t - eps) initial_pricer) / (2 * eps)
     + a * instantaneous_forward_rate t initial_pricer
     + (sigma\<^sup>2 / (2 * a)) * (1 - np_exp (- 2 * a * t))"
  by (simp add: generate_theta_function_def theta_traced_def
      derivative_of_instantaneous_forward_rate_traced_def
      instantaneous_forward_rate_def split_beta)

lemma theta_calls:
  "snd (theta_traced a sigma initial_pricer t) =
     snd (instantaneous_forward_rate_traced t initial_pricer)
     @ snd (instantaneous_forward_rate_traced (t + eps) initial_pricer)
     @ snd (instantaneous_forward_rate_traced (t - eps) initial_pricer)"
  by (simp add: theta_traced_def derivative_of_instantaneous_forward_rate_traced_def split_beta)

lemma A_eq:
  "A t T m =
     underflow (underflow (initial_zero_coupon_bond_pricer m T / initial_zero_coupon_bond_pricer m t)
       * np_exp (B t T (hw_a m)
                   * instantaneous_forward_rate t (initial_zero_coupon_bond_pricer m)
                 - ((hw_sigma m)\<^sup>2 / (4 * hw_a m)) * (1 - np_exp (- 2 * hw_a m * t))
                   * B t T (hw_a m)))"
  by (simp add: A_def A_traced_def Let_def call_pricer_def split_beta
      instantaneous_forward_rate_def)


text \<open>
  The lists of calls cover every evaluation of the pricer: two pricers that agree on the
  listed maturities give the same forward rate and the same \<open>theta\<close>.
\<close>

lemma instantaneous_forward_rate_cong:
  assumes "\<forall>x \<in> set (snd (instantaneous_forward_rate_traced t p)). p x = q x"
  shows "instantaneous_forward_rate t p = instantaneous_forward_rate t q"
  using assms
  by (simp add: instantaneous_forward_rate_eq instantaneous_forward_rate_calls split: if_splits)

lemma instantaneous_forward_rate_calls_indep:
  "snd (instantaneous_forward_rate_traced t p) = snd (instantaneous_forward_rate_traced t q)"
  by (simp add: instantaneous_forward_rate_calls)

lemma theta_cong:
  assumes "\<forall>x \<in> set (snd (theta_traced a sigma p t)). p x = q x"
  shows "generate_theta_function a sigma p t = generate_theta_function a sigma q t"
proof -
  have "instantaneous_forward_rate t p = instantaneous_forward_rate t q"
    using assms by (intro instantaneous_forward_rate_cong) (simp add: theta_calls)
  moreover have "instantaneous_forward_rate (t + eps) p = instantaneous_forward_rate (t + eps) q"
    using assms by (intro instantaneous_forward_rate_cong) (simp add: theta_calls)
  moreover have "instantaneous_forward_rate (t - eps) p = instantaneous_forward_rate (t - eps) q"
    using assms by (intro instantaneous_forward_rate_cong) (simp add: theta_calls)
  ultimately show ?thesis
    by (simp add: generate_theta_function_eq)
qed

text \<open>
  For \<open>0 \<le> t < eps\<close> the value of \<open>theta(t)\<close> depends on the price at the negative maturity
  \<open>t - eps\<close>: changing the pricer there alone changes \<open>theta(t)\<close>.
\<close>

lemma theta_depends_on_negative_maturity:
  assumes "0 \<le> t" "t < eps"
  shows "\<exists>q. (\<forall>x. x \<noteq> t - eps \<longrightarrow> q x = p x)
           \<and> generate_theta_function a sigma q t \<noteq> generate_theta_function a sigma p t"
proof -
  define q where "q = p (t - eps := exp (ln (p (t - eps)) + 1))"
  have e: "0 < eps" by (rule eps_pos)
  have q1: "instantaneous_forward_rate t q = instantaneous_forward_rate t p"
    using assms e by (simp add: instantaneous_forward_rate_eq q_def)
  have q2: "instantaneous_forward_rate (t + eps) q = instantaneous_forward_rate (t + eps) p"
    using assms e by (simp add: instantaneous_forward_rate_eq q_def)
  have q3: "instantaneous_forward_rate (t - eps) q
      = instantaneous_forward_rate (t - eps) p + 1 / eps"
    using assms e by (simp add: instantaneous_forward_rate_eq q_def field_simps)
  have "generate_theta_function a sigma q t - generate_theta_function a sigma p t
      = - (1 / eps) / (2 * eps)"
    unfolding generate_theta_function_eq q1 q2 q3 using e by (simp add: field_simps)
  moreover have "- (1 / eps) / (2 * eps) \<noteq> 0" using e by simp
  ultimately have "generate_theta_function a sigma q t \<noteq> generate_theta_function a sigma p t"
    by auto
  moreover have "\<forall>x. x \<noteq> t - eps \<longrightarrow> q x = p x" by (simp add: q_def)
  ultimately show ?thesis by blast
qed

lemma underflow_exp: "- 537 \<le> x \<Longrightarrow> underflow (exp x) = exp x"
  using np_exp_eq [of x] by (simp add: np_exp_def)

lemma B_nonzero: "a \<noteq> 0 \<Longrightarrow> B t T a = (1 / a) * (1 - np_exp (- a * (T - t)))"
  by (simp add: B_def)

subsection \<open>The fixture\<close>

text \<open>The fixture: a flat forward curve at 5 percent, as long as nothing underflows.\<close>

lemma mock_pricer_eq:
  assumes "t \<le> 10000"
  shows "mock_initial_zcb_pricer t = exp (- (1 / 20) * t)"
  using assms by (simp add: mock_initial_zcb_pricer_def np_exp_eq)


lemma mock_forward_rate:
  assumes "t \<le> 1000"
  shows "instantaneous_forward_rate t mock_initial_zcb_pricer = 1 / 20"
proof -
  have e: "0 < eps" "eps \<le> 1" by (simp_all add: eps_def)
  have "mock_initial_zcb_pricer (t + eps) = exp (- (1 / 20) * (t + eps))"
    "mock_initial_zcb_pricer t = exp (- (1 / 20) * t)"
    "mock_initial_zcb_pricer (t - eps) = exp (- (1 / 20) * (t - eps))"
    using assms e by (simp_all add: mock_pricer_eq)
  then show ?thesis
    using e(1) by (simp add: instantaneous_forward_rate_eq field_simps)
qed

lemma mock_B:
  assumes "\<bar>T - t\<bar> \<le> 10"
  shows "B t T (1 / 10) = 10 * (1 - exp (- (T - t) / 10))"
    and "- 20 \<le> B t T (1 / 10)" and "B t T (1 / 10) \<le> 10"
proof -
  have "T - t \<le> 10" using assms by linarith
  then have "- 537 \<le> - (1 / 10) * (T - t)" by simp
  then have npe: "np_exp (- (1 / 10) * (T - t)) = exp (- (1 / 10) * (T - t))"
    by (rule np_exp_eq)
  have "B t T (1 / 10) = (1 / (1 / 10)) * (1 - np_exp (- (1 / 10) * (T - t)))"
    by (rule B_nonzero) simp
  also have "\<dots> = (1 / (1 / 10)) * (1 - exp (- (1 / 10) * (T - t)))"
    by (simp only: npe)
  also have "- (1 / 10) * (T - t) = - (T - t) / 10" by argo
  finally show b: "B t T (1 / 10) = 10 * (1 - exp (- (T - t) / 10))" by simp
  have "exp (- (T - t) / 10) \<le> exp 1" using assms by simp
  then have "exp (- (T - t) / 10) \<le> 3" using exp_le by linarith
  then show "- 20 \<le> B t T (1 / 10)" unfolding b by simp
  show "B t T (1 / 10) \<le> 10" unfolding b by simp
qed

text \<open>The factor \<open>A\<close> and the bond price of the fixture model in closed form.\<close>

lemma mock_A:
  assumes "0 \<le> t" "t \<le> 100" "\<bar>T - t\<bar> \<le> 10"
  shows "A t T mock_calibrated_model =
     exp (- (T - t) / 20 + B t T (1 / 10) * (1 / 20 - (1 / 4000) * (1 - exp (- t / 5))))"
proof -
  define b where "b = B t T (1 / 10)"
  define c where "c = (1 / 4000) * (1 - exp (- t / 5))"
  have b: "- 20 \<le> b" "b \<le> 10" using mock_B(2,3) [OF assms(3)] by (simp_all add: b_def)
  have "0 < exp (- t / 5)" "exp (- t / 5) \<le> 1" using assms(1) by simp_all
  then have c: "0 \<le> c" "c \<le> 1 / 4000" by (simp_all add: c_def)
  have c': "(1 / 100)\<^sup>2 / (4 * (1 / 10)) * (1 - np_exp (- 2 * (1 / 10) * t)) = c"
    using assms(2) by (simp add: c_def power2_eq_square np_exp_eq)
  have T: "T \<le> 1000" using assms by linarith
  have P: "mock_initial_zcb_pricer T / mock_initial_zcb_pricer t = exp (- (T - t) / 20)"
    using assms T by (simp add: mock_pricer_eq exp_diff [symmetric] field_simps)
  have f: "instantaneous_forward_rate t mock_initial_zcb_pricer = 1 / 20"
    using assms(2) by (intro mock_forward_rate) simp
  have tm: "b * (1 / 20) - c * b = b * (1 / 20 - c)" by (simp add: algebra_simps)
  have "\<bar>b * (1 / 20 - c)\<bar> \<le> 20 * (1 / 20)"
    unfolding abs_mult using b c by (intro mult_mono) simp_all
  then have tb: "- 1 \<le> b * (1 / 20 - c)" by linarith
  have rb: "- 1 \<le> - (T - t) / 20" using assms(3) by simp
  have "A t T mock_calibrated_model
      = underflow (underflow (exp (- (T - t) / 20)) * np_exp (b * (1 / 20 - c)))"
    unfolding A_eq mock_calibrated_model_def
    by (simp only: CalibratedHW1FModel.simps P f c' b_def [symmetric] tm)
  also have "underflow (exp (- (T - t) / 20)) = exp (- (T - t) / 20)"
    using rb by (intro underflow_exp) linarith
  also have "np_exp (b * (1 / 20 - c)) = exp (b * (1 / 20 - c))"
    using tb by (intro np_exp_eq) linarith
  also have "exp (- (T - t) / 20) * exp (b * (1 / 20 - c))
      = exp (- (T - t) / 20 + b * (1 / 20 - c))"
    by (simp only: exp_add)
  also have "underflow (exp (- (T - t) / 20 + b * (1 / 20 - c)))
      = exp (- (T - t) / 20 + b * (1 / 20 - c))"
    using tb rb by (intro underflow_exp) linarith
  finally show ?thesis by (simp only: b_def c_def)
qed

lemma mock_price_zcb:
  assumes "0 \<le> t" "t \<le> 100" "\<bar>T - t\<bar> \<le> 10" "\<bar>r\<bar> \<le> 1"
  shows "price_zcb t T r mock_calibrated_model =
     exp (- (T - t) / 20
          + B t T (1 / 10) * (1 / 20 - (1 / 4000) * (1 - exp (- t / 5)) - r))"
proof -
  define b where "b = B t T (1 / 10)"
  define c where "c = (1 / 4000) * (1 - exp (- t / 5))"
  have b: "- 20 \<le> b" "b \<le> 10" using mock_B(2,3) [OF assms(3)] by (simp_all add: b_def)
  have "0 < exp (- t / 5)" "exp (- t / 5) \<le> 1" using assms(1) by simp_all
  then have c: "0 \<le> c" "c \<le> 1 / 4000" by (simp_all add: c_def)
  have "\<bar>b * (1 / 20 - c)\<bar> \<le> 20 * (1 / 20)"
    unfolding abs_mult using b c by (intro mult_mono) simp_all
  then have tb: "- 1 \<le> b * (1 / 20 - c)" by linarith
  have rb: "- 1 \<le> - (T - t) / 20" using assms(3) by simp
  have "\<bar>b * r\<bar> \<le> 20 * 1"
    unfolding abs_mult using b assms(4) by (intro mult_mono) simp_all
  then have br: "- 20 \<le> - (b * r)" by linarith
  have "price_zcb t T r mock_calibrated_model
      = underflow (exp (- (T - t) / 20 + b * (1 / 20 - c)) * np_exp (- b * r))"
    unfolding price_zcb_def Let_def mock_A [OF assms(1-3)] b_def c_def
    by (simp add: mock_calibrated_model_def)
  also have "np_exp (- b * r) = exp (- (b * r))"
  proof -
    have "- 537 \<le> - b * r" using br by simp
    then show ?thesis by (simp add: np_exp_eq)
  qed
  also have "exp (- (T - t) / 20 + b * (1 / 20 - c)) * exp (- (b * r))
      = exp (- (T - t) / 20 + b * (1 / 20 - c) + - (b * r))"
    by (simp only: exp_add)
  also have "underflow (exp (- (T - t) / 20 + b * (1 / 20 - c) + - (b * r)))
      = exp (- (T - t) / 20 + b * (1 / 20 - c) + - (b * r))"
    using tb rb br by (intro underflow_exp) linarith
  also have "- (T - t) / 20 + b * (1 / 20 - c) + - (b * r)
      = - (T - t) / 20 + b * (1 / 20 - c - r)"
    by (simp add: algebra_simps)
  finally show ?thesis by (simp only: b_def c_def)
qed

lemma mock_price_zcb_pos:
  assumes "0 \<le> t" "t \<le> 100" "\<bar>T - t\<bar> \<le> 10" "\<bar>r\<bar> \<le> 1"
  shows "0 < price_zcb t T r mock_calibrated_model"
  by (simp add: mock_price_zcb [OF assms])

subsection \<open>The bond-price factors\<close>

text \<open>
  Claim C1. The specification gives \<open>A(t,T)\<close> with the subtracted term of the exponent
  multiplied by \<open>B(t,T)\<close> squared. The code multiplies it by \<open>B(t,T)\<close> itself. At the input
  of \<^verbatim>\<open>test_A_function_placeholder\<close> (\<open>t = 0.1\<close>, \<open>T = 1.0\<close>, the fixture model, for which
  \<open>0 \<le> t \<le> T\<close>, \<open>a > 0\<close>, \<open>sigma > 0\<close> and every price is positive) the value the code
  computes differs from the value of the specification's formula.
\<close>

theorem A_misses_square:
  "A (1 / 10) 1 mock_calibrated_model \<noteq> A_spec (1 / 10) 1 mock_calibrated_model"
proof -
  let ?b = "B (1 / 10) 1 (1 / 10)"
  let ?c = "(1 / 4000) * (1 - exp (- (1 / 10) / 5)) :: real"
  have b: "?b = 10 * (1 - exp (- (9 / 100)))"
    using mock_B(1) [of 1 "1 / 10"] by simp
  have e1: "exp (- (9 / 100) :: real) < 1" by simp
  have "1 + (- (9 / 100)) \<le> exp (- (9 / 100) :: real)" by (rule exp_ge_add_one_self)
  then have e2: "9 / 10 < exp (- (9 / 100) :: real)" by simp
  have b0: "?b \<noteq> 0" using e1 by (simp add: b)
  have b1: "?b \<noteq> 1" using e2 by (simp add: b)
  have "exp (- (1 / 10) / 5 :: real) < 1" by simp
  then have c: "?c \<noteq> 0" by simp
  have bb: "?b \<noteq> ?b\<^sup>2"
  proof
    assume "?b = ?b\<^sup>2"
    then have "?b * (?b - 1) = 0" by (simp add: power2_eq_square algebra_simps)
    with b0 b1 show False by simp
  qed
  have "A (1 / 10) 1 mock_calibrated_model
      = exp (- (1 - 1 / 10) / 20 + ?b * (1 / 20 - ?c))"
    by (rule mock_A) simp_all
  also have "?b * (1 / 20 - ?c) = ?b * (1 / 20) - ?c * ?b"
    by (simp only: right_diff_distrib mult.commute)
  finally have code: "A (1 / 10) 1 mock_calibrated_model
      = exp (- (1 - 1 / 10) / 20 + (?b * (1 / 20) - ?c * ?b))" .
  have P: "mock_initial_zcb_pricer 1 / mock_initial_zcb_pricer (1 / 10) = exp (- (1 - 1 / 10) / 20)"
    by (simp add: mock_pricer_eq exp_diff [symmetric])
  have f: "instantaneous_forward_rate (1 / 10) mock_initial_zcb_pricer = 1 / 20"
    by (rule mock_forward_rate) simp
  have c': "(1 / 100)\<^sup>2 / (4 * (1 / 10)) * (1 - exp (- 2 * (1 / 10) * (1 / 10))) = ?c"
    by (simp add: power2_eq_square)
  have "A_spec (1 / 10) 1 mock_calibrated_model
      = exp (- (1 - 1 / 10) / 20) * exp (?b * (1 / 20) - ?c * ?b\<^sup>2)"
    unfolding A_spec_def Let_def mock_calibrated_model_def
    by (simp only: CalibratedHW1FModel.simps P f c')
  also have "\<dots> = exp (- (1 - 1 / 10) / 20 + (?b * (1 / 20) - ?c * ?b\<^sup>2))"
    by (simp only: exp_add)
  finally have spec: "A_spec (1 / 10) 1 mock_calibrated_model
      = exp (- (1 - 1 / 10) / 20 + (?b * (1 / 20) - ?c * ?b\<^sup>2))" .
  define u where "u = ?c * ?b"
  define v where "v = ?c * ?b\<^sup>2"
  define w where "w = ?b * (1 / 20)"
  have "u \<noteq> v" unfolding u_def v_def using c bb by simp
  then have "- (1 - 1 / 10) / 20 + (w - u) \<noteq> - (1 - 1 / 10) / 20 + (w - v)" by simp
  then have "- (1 - 1 / 10) / 20 + (?b * (1 / 20) - ?c * ?b)
      \<noteq> - (1 - 1 / 10) / 20 + (?b * (1 / 20) - ?c * ?b\<^sup>2)"
    unfolding u_def v_def w_def .
  then show ?thesis unfolding code spec exp_inj_iff .
qed

text \<open>
  A bond price is never negative, and it is positive exactly when the last product is
  above the threshold of underflow. (A factor beyond the largest double is kept as a real
  number here.)
\<close>

lemma price_zcb_nonneg:
  assumes "0 < initial_zero_coupon_bond_pricer m T" "0 < initial_zero_coupon_bond_pricer m t"
  shows "0 \<le> price_zcb t T r_t m"
    and "0 < price_zcb t T r_t m
         \<longleftrightarrow> 1 / 2 ^ 1075 < A t T m * np_exp (- B t T (hw_a m) * r_t)"
proof -
  have "0 \<le> underflow (initial_zero_coupon_bond_pricer m T
                              / initial_zero_coupon_bond_pricer m t)"
    using assms by (intro underflow_nonneg) simp
  then have "0 \<le> underflow (initial_zero_coupon_bond_pricer m T
                              / initial_zero_coupon_bond_pricer m t)
       * np_exp (B t T (hw_a m)
                   * instantaneous_forward_rate t (initial_zero_coupon_bond_pricer m)
                 - ((hw_sigma m)\<^sup>2 / (4 * hw_a m)) * (1 - np_exp (- 2 * hw_a m * t))
                   * B t T (hw_a m))"
    using np_exp_nonneg by (rule mult_nonneg_nonneg)
  then have "0 \<le> A t T m"
    unfolding A_eq by (rule underflow_nonneg)
  then have "0 \<le> A t T m * np_exp (- B t T (hw_a m) * r_t)"
    by (intro mult_nonneg_nonneg np_exp_nonneg)
  then show "0 \<le> price_zcb t T r_t m"
    by (simp add: price_zcb_def Let_def underflow_nonneg)
  show "0 < price_zcb t T r_t m
         \<longleftrightarrow> 1 / 2 ^ 1075 < A t T m * np_exp (- B t T (hw_a m) * r_t)"
    by (simp add: price_zcb_def Let_def underflow_pos_iff)
qed





text \<open>
  Claim C8. If \<open>a = 0\<close> then \<open>B(t, T, a) = T - t\<close>, so that \<open>B(0, 1, 0) = 1\<close>; and for every
  \<open>a > 0\<close>, \<open>B(T, T, a) = 0\<close>.
\<close>

theorem B_boundary:
  "(a = 0 \<longrightarrow> B t T a = T - t) \<and> B 0 1 0 = 1 \<and> (0 < a \<longrightarrow> B T T a = 0)"
  by (simp add: B_def np_exp_0)

theorem B_boundary_witness:
  "((0::real) = 0 \<and> B (1 / 2) (3 / 2) 0 = 3 / 2 - 1 / 2) \<and> B 0 1 0 = 1
   \<and> ((0::real) < 1 / 10 \<and> B 5 5 (1 / 10) = 0)"
  using B_boundary [of 0 "1 / 2" "3 / 2"] B_boundary [of "1 / 10" 5 5] by simp

subsection \<open>Where theta evaluates the pricer\<close>

lemma theta_ignores_negative_maturities:
  assumes "2 * eps \<le> t" "\<forall>x. 0 \<le> x \<longrightarrow> q x = p x"
  shows "generate_theta_function a sigma q t = generate_theta_function a sigma p t"
proof -
  have "\<forall>x \<in> set (snd (theta_traced a sigma q t)). q x = p x"
    using assms eps_pos by (auto simp add: theta_calls instantaneous_forward_rate_calls)
  then show ?thesis by (rule theta_cong)
qed

text \<open>
  Claim C10. For \<open>0 \<le> t < 1e-5\<close>, evaluating \<open>theta(t)\<close> of \<open>generate_theta_function\<close> calls
  the pricer at the negative maturity \<open>t - 1e-5\<close>: that maturity is below \<open>eps\<close>, so
  \<open>instantaneous_forward_rate(t - eps)\<close> takes its small-argument branch and calls the
  pricer there; the call is among the calls that \<open>theta(t)\<close> makes, and the value of
  \<open>theta(t)\<close> depends on what the pricer returns there (changing the pricer at that maturity
  alone changes \<open>theta(t)\<close>). For \<open>t \<ge> 2e-5\<close> every maturity at which \<open>theta(t)\<close> calls the
  pricer is non-negative, and \<open>theta(t)\<close> does not depend on the pricer at negative
  maturities. The calls are those of the function whose value is \<open>theta(t)\<close>.
\<close>

theorem theta_negative_maturity:
  "(0 \<le> t \<and> t < eps \<longrightarrow>
      t - eps < 0
      \<and> t - eps < eps
      \<and> t - eps \<in> set (snd (instantaneous_forward_rate_traced (t - eps) p))
      \<and> t - eps \<in> set (snd (theta_traced a sigma p t))
      \<and> (\<exists>q. (\<forall>x. x \<noteq> t - eps \<longrightarrow> q x = p x)
             \<and> generate_theta_function a sigma q t \<noteq> generate_theta_function a sigma p t))
   \<and> (2 * eps \<le> t \<longrightarrow>
      (\<forall>x \<in> set (snd (theta_traced a sigma p t)). 0 \<le> x)
      \<and> (\<forall>q. (\<forall>x. 0 \<le> x \<longrightarrow> q x = p x)
             \<longrightarrow> generate_theta_function a sigma q t = generate_theta_function a sigma p t))
   \<and> generate_theta_function a sigma p t = fst (theta_traced a sigma p t)"
proof (intro conjI impI)
  assume t: "0 \<le> t \<and> t < eps"
  show "t - eps < 0" "t - eps < eps" using t eps_pos by simp_all
  show "t - eps \<in> set (snd (instantaneous_forward_rate_traced (t - eps) p))"
    using t eps_pos by (simp add: instantaneous_forward_rate_calls)
  show "t - eps \<in> set (snd (theta_traced a sigma p t))"
    using t eps_pos by (simp add: theta_calls instantaneous_forward_rate_calls)
  show "\<exists>q. (\<forall>x. x \<noteq> t - eps \<longrightarrow> q x = p x)
          \<and> generate_theta_function a sigma q t \<noteq> generate_theta_function a sigma p t"
    using t by (intro theta_depends_on_negative_maturity) simp_all
next
  assume t: "2 * eps \<le> t"
  show "\<forall>x \<in> set (snd (theta_traced a sigma p t)). 0 \<le> x"
    using t eps_pos by (auto simp add: theta_calls instantaneous_forward_rate_calls)
  show "\<forall>q. (\<forall>x. 0 \<le> x \<longrightarrow> q x = p x)
          \<longrightarrow> generate_theta_function a sigma q t = generate_theta_function a sigma p t"
    using t by (auto intro: theta_ignores_negative_maturities)
next
  show "generate_theta_function a sigma p t = fst (theta_traced a sigma p t)"
    by (simp add: generate_theta_function_def)
qed

theorem theta_negative_maturity_witness:
  "((0::real) \<le> 0 \<and> 0 < eps
      \<and> 0 - eps \<in> set (snd (theta_traced (1 / 10) (1 / 100) mock_initial_zcb_pricer 0))
      \<and> 0 - eps < 0
      \<and> (\<exists>q. q eps = mock_initial_zcb_pricer eps
             \<and> generate_theta_function (1 / 10) (1 / 100) q 0
                \<noteq> generate_theta_function (1 / 10) (1 / 100) mock_initial_zcb_pricer 0))
   \<and> (2 * eps \<le> 1
      \<and> list_all (\<lambda>x. 0 \<le> x) (snd (theta_traced (1 / 10) (1 / 100) mock_initial_zcb_pricer 1))
      \<and> generate_theta_function (1 / 10) (1 / 100)
           (\<lambda>x. if 0 \<le> x then mock_initial_zcb_pricer x else 7) 1
         = generate_theta_function (1 / 10) (1 / 100) mock_initial_zcb_pricer 1)"
proof -
  have e: "2 * eps \<le> 1" "0 < eps" by (simp_all add: eps_def)
  note t0 = theta_negative_maturity [of 0 mock_initial_zcb_pricer "1 / 10" "1 / 100"]
  note t1 = theta_negative_maturity [of 1 mock_initial_zcb_pricer "1 / 10" "1 / 100"]
  from t0 e obtain q where q: "\<forall>x. x \<noteq> 0 - eps \<longrightarrow> q x = mock_initial_zcb_pricer x"
    "generate_theta_function (1 / 10) (1 / 100) q 0
       \<noteq> generate_theta_function (1 / 10) (1 / 100) mock_initial_zcb_pricer 0"
    by auto
  have "q eps = mock_initial_zcb_pricer eps" using q(1) e(2) by simp
  with q(2) have ex: "\<exists>q. q eps = mock_initial_zcb_pricer eps
             \<and> generate_theta_function (1 / 10) (1 / 100) q 0
                \<noteq> generate_theta_function (1 / 10) (1 / 100) mock_initial_zcb_pricer 0"
    by blast
  have "generate_theta_function (1 / 10) (1 / 100)
           (\<lambda>x. if 0 \<le> x then mock_initial_zcb_pricer x else 7) 1
         = generate_theta_function (1 / 10) (1 / 100) mock_initial_zcb_pricer 1"
    using t1 e by simp
  moreover have "list_all (\<lambda>x. 0 \<le> x)
      (snd (theta_traced (1 / 10) (1 / 100) mock_initial_zcb_pricer 1))"
    using t1 e by (simp add: list_all_iff)
  moreover have "0 - eps \<in> set (snd (theta_traced (1 / 10) (1 / 100) mock_initial_zcb_pricer 0))"
    using t0 e by simp
  ultimately show ?thesis using e ex by simp
qed

subsection \<open>Swaptions\<close>

text \<open>No date after expiry: the early return.\<close>

lemma swaption_no_dates:
  assumes "np_arange tenor_start (tenor_end + ff) ff = Inr dates"
    and "\<forall>d \<in> set dates. d \<le> expiry"
  shows "price_european_swaption norm_cdf solve swap_rate expiry tenor_start tenor_end ff m ot = Inr 0"
proof -
  have "filter (\<lambda>d. d > expiry) dates = []"
    using assms(2) by (auto simp: filter_empty_conv)
  then show ?thesis
    using assms(1) by (simp add: price_european_swaption_def fixed_payment_dates_def)
qed

text \<open>The two stand-ins satisfy the contracts.\<close>

lemma logistic_cdf_contract: "norm_cdf_contract logistic_cdf"
proof -
  have pos: "0 < 1 + exp (- x)" for x :: real
    by (simp add: add_pos_pos)
  have "logistic_cdf x < logistic_cdf y" if "x < y" for x y
  proof -
    have "exp (- y) < exp (- x)" using that by simp
    then have "1 + exp (- y) < 1 + exp (- x)" by simp
    then show ?thesis
      unfolding logistic_cdf_def using pos [of y] by (simp add: frac_less2)
  qed
  moreover have "0 < logistic_cdf x" for x
    unfolding logistic_cdf_def using pos [of x] by simp
  ultimately show ?thesis by (simp add: norm_cdf_contract_def)
qed

lemma endpoint_solver_contract: "root_solver_contract endpoint_solver"
  by (simp add: root_solver_contract_def endpoint_solver_def)

text \<open>
  The swap from 1.0 to 2.5 with yearly payments, expiry 2.5: \<^verbatim>\<open>np.arange(1.0, 3.5, 1.0)\<close> is
  \<open>[1, 2, 3]\<close>, of which 3 lies after the expiry.
\<close>

lemma offgrid_arange: "np_arange 1 (5 / 2 + 1) 1 = Inr [1, 2, 3]"
proof -
  have "float64_round (5 / 2 + 1) = 7 / 2" by (simp add: float64_round_small)
  moreover have "float64_round (7 / 2 - 1) = 5 / 2" by (simp add: float64_round_small)
  moreover have "float64_round (1 + 1) = 2" "float64_round (2 - 1) = 1"
    "float64_round (1 + float64_round 2) = 3"
    by (simp_all add: float64_round_small)
  ultimately show ?thesis
    by (simp add: np_arange_def Let_def float64_round_small upt_rec)
qed

lemma offgrid_dates: "fixed_payment_dates (5 / 2) 1 (5 / 2) 1 = Inr [3]"
  using offgrid_arange by (simp add: fixed_payment_dates_def)

text \<open>
  At expiry \<open>2.5\<close>, for a short rate \<open>r\<close> in the bracket, the fixture's bond price is
  \<open>exp (- (T - 2.5) / 20 + B * (l - r))\<close> with the level \<open>l\<close> below.
\<close>

lemma offgrid_price_zcb:
  fixes l :: real
  assumes "l = 1 / 20 - (1 / 4000) * (1 - exp (- (1 / 2)))" "\<bar>T - 5 / 2\<bar> \<le> 10" "\<bar>r\<bar> \<le> 1"
  shows "price_zcb (5 / 2) T r mock_calibrated_model =
     exp (- (T - 5 / 2) / 20 + B (5 / 2) T (1 / 10) * (l - r))"
  using mock_price_zcb [of "5 / 2" T r] assms by simp

lemma offgrid_level:
  fixes l :: real
  assumes "l = 1 / 20 - (1 / 4000) * (1 - exp (- (1 / 2)))"
  shows "l < 1 / 20" "0 < l"
proof -
  have "exp (- (1 / 2) :: real) < 1" by simp
  then show "l < 1 / 20" by (simp add: assms)
  have "0 < 20 * exp (- (1 / 2) :: real)" by simp
  then have "- (exp (- (1 / 2)) * 20) < (3980 :: real)" by linarith
  then show "0 < l" by (simp add: assms)
qed

lemma offgrid_B:
  "B (5 / 2) 1 (1 / 10) \<le> - (3 / 2)" "0 < B (5 / 2) 3 (1 / 10)" "B (5 / 2) (5 / 2) (1 / 10) = 0"
proof -
  have "1 + 3 / 20 \<le> exp (3 / 20 :: real)" by (rule exp_ge_add_one_self)
  then show "B (5 / 2) 1 (1 / 10) \<le> - (3 / 2)"
    using mock_B(1) [of 1 "5 / 2"] by simp
  have "exp (- (1 / 20) :: real) < 1" by simp
  then show "0 < B (5 / 2) 3 (1 / 10)"
    using mock_B(1) [of 3 "5 / 2"] by simp
  show "B (5 / 2) (5 / 2) (1 / 10) = 0"
    using mock_B(1) [of "5 / 2" "5 / 2"] by simp
qed

lemma offgrid_swap_pv:
  assumes "\<bar>x\<bar> \<le> 1"
  shows "swap_pv_at_expiry [3] (1 / 20) (5 / 2) 1 (5 / 2) 1 mock_calibrated_model x =
     (1 / 20) * price_zcb (5 / 2) 3 x mock_calibrated_model
     - (price_zcb (5 / 2) 1 x mock_calibrated_model - 1)"
proof -
  have "price_zcb (5 / 2) (5 / 2) x mock_calibrated_model = 1"
    using mock_price_zcb [of "5 / 2" "5 / 2" x] assms by (simp add: offgrid_B(3))
  then show ?thesis by (simp add: swap_pv_at_expiry_def)
qed

lemma offgrid_swap_pv_neg:
  assumes l: "l = 1 / 20 - (1 / 4000) * (1 - exp (- (1 / 2)))" and x: "l \<le> x" "x \<le> 1"
  shows "swap_pv_at_expiry [3] (1 / 20) (5 / 2) 1 (5 / 2) 1 mock_calibrated_model x < 0"
proof -
  have ax: "\<bar>x\<bar> \<le> 1" using x offgrid_level(2) [OF l] by simp
  have "B (5 / 2) 3 (1 / 10) * (l - x) \<le> 0"
    using offgrid_B(2) x by (simp add: mult_le_0_iff)
  then have p3: "price_zcb (5 / 2) 3 x mock_calibrated_model \<le> 1"
    using ax by (simp add: offgrid_price_zcb [OF l])
  have "0 \<le> B (5 / 2) 1 (1 / 10) * (l - x)"
    using offgrid_B(1) x by (simp add: zero_le_mult_iff)
  then have "3 / 40 \<le> - (1 - 5 / 2) / 20 + B (5 / 2) 1 (1 / 10) * (l - x)" by simp
  moreover have "1 + (- (1 - 5 / 2) / 20 + B (5 / 2) 1 (1 / 10) * (l - x))
      \<le> exp (- (1 - 5 / 2) / 20 + B (5 / 2) 1 (1 / 10) * (l - x))"
    by (rule exp_ge_add_one_self)
  ultimately have "1 + 3 / 40 \<le> exp (- (1 - 5 / 2) / 20 + B (5 / 2) 1 (1 / 10) * (l - x))"
    by linarith
  moreover have "price_zcb (5 / 2) 1 x mock_calibrated_model
      = exp (- (1 - 5 / 2) / 20 + B (5 / 2) 1 (1 / 10) * (l - x))"
    using ax by (intro offgrid_price_zcb [OF l]) simp_all
  ultimately have p1: "1 + 3 / 40 \<le> price_zcb (5 / 2) 1 x mock_calibrated_model"
    by simp
  show ?thesis using p1 p3 by (simp add: offgrid_swap_pv [OF ax])
qed

lemma offgrid_swap_pv_pos:
  "0 < swap_pv_at_expiry [3] (1 / 20) (5 / 2) 1 (5 / 2) 1 mock_calibrated_model (- (1 / 2))"
proof -
  define l :: real where "l = 1 / 20 - (1 / 4000) * (1 - exp (- (1 / 2)))"
  have y: "1 / 2 \<le> l - (- (1 / 2))" using offgrid_level(2) [OF l_def] by simp
  have "B (5 / 2) 1 (1 / 10) * (l - (- (1 / 2))) \<le> - (3 / 2) * (1 / 2)"
  proof -
    have "B (5 / 2) 1 (1 / 10) * (l - (- (1 / 2))) \<le> - (3 / 2) * (l - (- (1 / 2)))"
      using offgrid_B(1) y by (intro mult_right_mono) simp_all
    also have "\<dots> \<le> - (3 / 2) * (1 / 2)" using y by simp
    finally show ?thesis .
  qed
  then have "- (1 - 5 / 2) / 20 + B (5 / 2) 1 (1 / 10) * (l - (- (1 / 2))) < 0" by simp
  then have "exp (- (1 - 5 / 2) / 20 + B (5 / 2) 1 (1 / 10) * (l - (- (1 / 2)))) < 1"
    by (simp only: exp_less_one_iff)
  moreover have "price_zcb (5 / 2) 1 (- (1 / 2)) mock_calibrated_model
      = exp (- (1 - 5 / 2) / 20 + B (5 / 2) 1 (1 / 10) * (l - (- (1 / 2))))"
    by (intro offgrid_price_zcb [OF l_def]) simp_all
  ultimately have p1: "price_zcb (5 / 2) 1 (- (1 / 2)) mock_calibrated_model < 1"
    by simp
  have "price_zcb (5 / 2) 3 (- (1 / 2)) mock_calibrated_model
      = exp (- (3 - 5 / 2) / 20 + B (5 / 2) 3 (1 / 10) * (l - (- (1 / 2))))"
    by (intro offgrid_price_zcb [OF l_def]) simp_all
  then have p3: "0 < price_zcb (5 / 2) 3 (- (1 / 2)) mock_calibrated_model"
    by simp
  show ?thesis using p1 p3 by (simp add: offgrid_swap_pv)
qed

lemma offgrid_put_pos:
  assumes cdf: "norm_cdf_contract norm_cdf"
    and r: "swap_pv_at_expiry [3] (1 / 20) (5 / 2) 1 (5 / 2) 1 mock_calibrated_model r = 0"
    and br: "- (1 / 2) \<le> r" "r \<le> 1 / 2"
  shows "\<exists>v. price_european_option_on_zcb norm_cdf
              (price_zcb (5 / 2) 3 r mock_calibrated_model) (5 / 2) 3 mock_calibrated_model ''put''
            = Inr v \<and> 0 < v"
proof -
  define K where "K = price_zcb (5 / 2) 3 r mock_calibrated_model"
  define l :: real where "l = 1 / 20 - (1 / 4000) * (1 - exp (- (1 / 2)))"
  have ar: "\<bar>r\<bar> \<le> 1" using br by simp
  have "\<not> l \<le> r"
    using offgrid_swap_pv_neg [OF l_def, of r] r br by auto
  then have "0 < B (5 / 2) 3 (1 / 10) * (l - r)" using offgrid_B(2) by simp
  then have "- (1 / 40) < - (3 - 5 / 2) / 20 + B (5 / 2) 3 (1 / 10) * (l - r)" by simp
  then have "exp (- (1 / 40)) < exp (- (3 - 5 / 2) / 20 + B (5 / 2) 3 (1 / 10) * (l - r))"
    by (simp only: exp_less_cancel_iff)
  moreover have "K = exp (- (3 - 5 / 2) / 20 + B (5 / 2) 3 (1 / 10) * (l - r))"
    unfolding K_def using ar by (intro offgrid_price_zcb [OF l_def]) simp_all
  ultimately have K: "exp (- (1 / 40)) < K" by simp
  define P0S where "P0S = mock_initial_zcb_pricer 3"
  define P0T where "P0T = mock_initial_zcb_pricer (5 / 2)"
  have P: "0 < P0T" "0 < P0S" "P0S = exp (- (1 / 40)) * P0T"
    by (simp_all add: P0S_def P0T_def mock_pricer_eq exp_add [symmetric])
  have KP: "P0S < K * P0T" using K P by simp
  define sp where "sp = 1 / 100 * sqrt ((1 - np_exp (- 2 * (1 / 10) * (5 / 2))) / (2 * (1 / 10)))
        * B (5 / 2) 3 (1 / 10)"
  have "np_exp (- 2 * (1 / 10) * (5 / 2)) = exp (- 2 * (1 / 10) * (5 / 2))"
    by (intro np_exp_eq) simp
  moreover have "exp (- 2 * (1 / 10) * (5 / 2) :: real) < 1" by simp
  ultimately have "0 < sqrt ((1 - np_exp (- 2 * (1 / 10) * (5 / 2))) / (2 * (1 / 10)))"
    by simp
  then have sp: "0 < sp" unfolding sp_def using offgrid_B(2) by simp
  define h where "h = (ln (P0S / (P0T * K)) + (1 / 2) * sp\<^sup>2) / sp"
  have cdfs: "norm_cdf (- h) < norm_cdf (sp - h)" "0 < norm_cdf (- h)"
    using cdf sp by (simp_all add: norm_cdf_contract_def)
  have "P0S * norm_cdf (- h) < K * P0T * norm_cdf (sp - h)"
  proof -
    have "P0S * norm_cdf (- h) < (K * P0T) * norm_cdf (- h)"
      using KP cdfs(2) by simp
    also have "\<dots> < (K * P0T) * norm_cdf (sp - h)"
    proof -
      have "0 < K * P0T" using KP P(2) by linarith
      then show ?thesis using cdfs(1) by (rule mult_strict_left_mono [rotated])
    qed
    finally show ?thesis .
  qed
  moreover have "price_european_option_on_zcb norm_cdf K (5 / 2) 3 mock_calibrated_model ''put''
      = Inr (K * P0T * norm_cdf (sp - h) - P0S * norm_cdf (- h))"
    by (simp add: price_european_option_on_zcb_def Let_def mock_calibrated_model_def
        h_def sp_def P0S_def P0T_def)
  ultimately show ?thesis unfolding K_def by simp
qed

text \<open>
  Claim C2. The specification says that a swaption with \<open>tenor_end \<le> expiry\<close> and
  \<open>fixed_frequency > 0\<close> prices to exactly 0.0. The dates \<^verbatim>\<open>np.arange\<close> produces stop
  short of \<open>tenor_end + fixed_frequency\<close>, not of \<open>tenor_end\<close>: when the tenor is not a
  whole number of periods the last date lies after \<open>tenor_end\<close>. For the swap from 1.0 to
  2.5 with yearly payments and expiry 2.5 (so \<open>tenor_end \<le> expiry\<close>), on the fixture model,
  the date 3.0 is kept, the early return is not taken, and the receiver swaption never
  prices to 0.0: with any positive, strictly increasing \<open>norm_cdf\<close> and any root finder
  that returns zeros of its function, the result is a strictly positive price, or the
  \<^verbatim>\<open>RuntimeError\<close> of the root finder.
\<close>

theorem offgrid_swaption_not_zero:
  assumes "norm_cdf_contract norm_cdf" "root_solver_contract solve"
  shows "fixed_payment_dates (5 / 2) 1 (5 / 2) 1 = Inr [3] \<and>
     (case price_european_swaption norm_cdf solve (1 / 20) (5 / 2) 1 (5 / 2) 1
             mock_calibrated_model ''receiver''
      of Inr v \<Rightarrow> 0 < v | Inl e \<Rightarrow> exception_class e = ''RuntimeError'')"
proof -
  let ?f = "swap_pv_at_expiry [3] (1 / 20) (5 / 2) 1 (5 / 2) 1 mock_calibrated_model"
  define l :: real where "l = 1 / 20 - (1 / 4000) * (1 - exp (- (1 / 2)))"
  have "l \<le> 1 / 2" using offgrid_level(1) [OF l_def] by simp
  then have "?f (1 / 2) < 0"
    by (intro offgrid_swap_pv_neg [OF l_def]) simp_all
  then have sign: "\<not> ?f (- (1 / 2)) * ?f (1 / 2) > 0"
    using offgrid_swap_pv_pos by (simp add: zero_less_mult_iff)
  have solve: "case solve ?f (- (1 / 2)) (1 / 2) of
      Inr x \<Rightarrow> - (1 / 2) \<le> x \<and> x \<le> 1 / 2 \<and> ?f x = 0
    | Inl e \<Rightarrow> exception_class e = ''RuntimeError''"
    using assms(2) unfolding root_solver_contract_def by blast
  have "case price_european_swaption norm_cdf solve (1 / 20) (5 / 2) 1 (5 / 2) 1
             mock_calibrated_model ''receiver''
      of Inr v \<Rightarrow> 0 < v | Inl e \<Rightarrow> exception_class e = ''RuntimeError''"
  proof (cases "solve ?f (- (1 / 2)) (1 / 2)")
    case (Inl e)
    with solve have "exception_class e = ''RuntimeError''" by simp
    then obtain msg where "e = RuntimeError msg" by (cases e) simp_all
    with Inl sign show ?thesis
      by (simp add: price_european_swaption_def offgrid_dates brentq_def)
  next
    case (Inr r)
    with solve have "?f r = 0" "- (1 / 2) \<le> r" "r \<le> 1 / 2" by simp_all
    from offgrid_put_pos [OF assms(1) this] obtain v where
      v: "price_european_option_on_zcb norm_cdf
              (price_zcb (5 / 2) 3 r mock_calibrated_model) (5 / 2) 3 mock_calibrated_model ''put''
            = Inr v" "0 < v" by blast
    with Inr sign show ?thesis
      by (simp add: price_european_swaption_def offgrid_dates brentq_def)
  qed
  with offgrid_dates show ?thesis by simp
qed

theorem offgrid_swaption_not_zero_witness:
  "norm_cdf_contract logistic_cdf \<and> root_solver_contract endpoint_solver
   \<and> fixed_payment_dates (5 / 2) 1 (5 / 2) 1 = Inr [3]
   \<and> price_european_swaption logistic_cdf endpoint_solver (1 / 20) (5 / 2) 1 (5 / 2) 1
             mock_calibrated_model ''receiver'' \<noteq> Inr 0"
  using offgrid_swaption_not_zero [OF logistic_cdf_contract endpoint_solver_contract]
    logistic_cdf_contract endpoint_solver_contract
  by (auto split: sum.splits)

text \<open>
  Claim C9. When every date that \<^verbatim>\<open>np.arange\<close> enumerates lies at or before \<open>expiry\<close>,
  \<open>price_european_swaption\<close> returns 0.0 for every \<open>option_type\<close> string, valid or not: the
  early return comes before the test of \<open>option_type\<close>.
\<close>

theorem expired_swaption_any_option_type:
  assumes "np_arange tenor_start (tenor_end + fixed_frequency) fixed_frequency = Inr dates"
    and "\<forall>d \<in> set dates. d \<le> expiry"
  shows "price_european_swaption norm_cdf solve swap_rate expiry tenor_start tenor_end
           fixed_frequency calibrated_model option_type = Inr 0"
  using assms by (rule swaption_no_dates)

theorem expired_swaption_any_option_type_witness:
  "np_arange 1 (2 + 1) 1 = Inr [1, 2] \<and> list_all (\<lambda>d. d \<le> 2) [1, 2 :: real]
   \<and> price_european_swaption logistic_cdf endpoint_solver (1 / 20) 2 1 2 1
        mock_calibrated_model ''straddle'' = Inr 0"
proof -
  have "float64_round (2 + 1) = 3" "float64_round (3 - 1) = 2" "float64_round (1 + 1) = 2"
    by (simp_all add: float64_round_small)
  then have a: "np_arange 1 (2 + 1) 1 = Inr [1, 2]"
    by (simp add: np_arange_def Let_def float64_round_small upt_rec)
  have h: "\<forall>d \<in> set [1, 2 :: real]. d \<le> 2" by simp
  from expired_swaption_any_option_type [OF a h] a show ?thesis by simp
qed

text \<open>
  Claim C4. When at least one payment date lies strictly after \<open>expiry\<close> and
  \<open>swap_pv_at_expiry\<close> has the same strict sign at both ends of the bracket \<open>[-0.5, 0.5]\<close>,
  \<^verbatim>\<open>brentq\<close> raises \<^verbatim>\<open>ValueError\<close>, which is caught: \<open>price_european_swaption\<close> returns 0.0
  and raises nothing, whatever the \<open>option_type\<close>.
\<close>

theorem no_sign_change_prices_zero:
  assumes "fixed_payment_dates expiry tenor_start tenor_end fixed_frequency = Inr dates"
    and "dates \<noteq> []"
    and "swap_pv_at_expiry dates swap_rate expiry tenor_start tenor_end fixed_frequency
           calibrated_model (- (1 / 2))
         * swap_pv_at_expiry dates swap_rate expiry tenor_start tenor_end fixed_frequency
             calibrated_model (1 / 2) > 0"
  shows "price_european_swaption norm_cdf solve swap_rate expiry tenor_start tenor_end
           fixed_frequency calibrated_model option_type = Inr 0"
  using assms by (simp add: price_european_swaption_def brentq_def)

theorem no_sign_change_prices_zero_witness:
  "fixed_payment_dates 0 1 1 1 = Inr [1] \<and> [1 :: real] \<noteq> []
   \<and> swap_pv_at_expiry [1] (1 / 20) 0 1 1 1 mock_calibrated_model (- (1 / 2))
       * swap_pv_at_expiry [1] (1 / 20) 0 1 1 1 mock_calibrated_model (1 / 2) > 0
   \<and> price_european_swaption logistic_cdf endpoint_solver (1 / 20) 0 1 1 1
        mock_calibrated_model ''payer'' = Inr 0"
proof -
  have "float64_round (1 + 1) = 2" "float64_round (2 - 0) = 2" "float64_round (0 + 1) = 1"
    by (simp_all add: float64_round_small)
  then have d: "fixed_payment_dates 0 1 1 1 = Inr [1]"
    by (simp add: fixed_payment_dates_def np_arange_def Let_def float64_round_small upt_rec)
  have p: "0 < price_zcb 0 1 r mock_calibrated_model" if "\<bar>r\<bar> \<le> 1" for r
    using that by (intro mock_price_zcb_pos) simp_all
  have h: "swap_pv_at_expiry [1] (1 / 20) 0 1 1 1 mock_calibrated_model (- (1 / 2))
       * swap_pv_at_expiry [1] (1 / 20) 0 1 1 1 mock_calibrated_model (1 / 2) > 0"
    using p [of "1 / 2"] p [of "- (1 / 2)"] by (simp add: swap_pv_at_expiry_def)
  have ne: "[1 :: real] \<noteq> []" by simp
  from no_sign_change_prices_zero [OF d ne h] d h show ?thesis by simp
qed

subsection \<open>Calibration\<close>

text \<open>
  Claim C3, as the code has it. When the optimizer returns a result whose \<open>success\<close> flag
  is false, \<open>_calibrate_logic\<close> raises a \<^verbatim>\<open>RuntimeError\<close> whose message is
  \<open>Calibration failed: \<close> followed by the optimizer's message; the exception is the result of
  the call, and no model is returned. The class of the exception is Python's built-in
  \<^verbatim>\<open>RuntimeError\<close>: the sources define no calibration-specific exception class.
\<close>

theorem calibration_failure_raises_RuntimeError:
  assumes "minimize (objective_function norm_cdf solve initial_pricer market_swaptions)
             (1 / 10, 1 / 100) ''L-BFGS-B'' [(1 / 100000, None), (1 / 100000, None)]
           = Inr result"
    and "\<not> success result"
  shows "calibrate_logic minimize norm_cdf solve initial_pricer market_swaptions
           = Inl (RuntimeError (''Calibration failed: '' @ message result))
         \<and> (\<forall>model. calibrate_logic minimize norm_cdf solve initial_pricer market_swaptions
                      \<noteq> Inr model)"
  using assms by (simp add: calibrate_logic_def Let_def)

theorem calibration_failure_raises_RuntimeError_witness:
  "failing_minimize
       (objective_function logistic_cdf endpoint_solver mock_initial_zcb_pricer
          [\<lparr> ms_swap_rate = 1 / 20, ms_expiry = 1, ms_tenor_start = 1, ms_tenor_end = 2,
             ms_fixed_frequency = 1, ms_market_price = 1 / 1000, ms_option_type = None \<rparr>])
       (1 / 10, 1 / 100) ''L-BFGS-B'' [(1 / 100000, None), (1 / 100000, None)]
     = Inr \<lparr> success = False, message = ''ABNORMAL_TERMINATION_IN_LNSRCH'',
             result_x = (1 / 10, 1 / 100), result_fun = 0 \<rparr>
   \<and> \<not> success \<lparr> success = False, message = ''ABNORMAL_TERMINATION_IN_LNSRCH'',
             result_x = (1 / 10, 1 / 100 :: real), result_fun = 0 :: real \<rparr>
   \<and> calibrate_logic failing_minimize logistic_cdf endpoint_solver mock_initial_zcb_pricer
          [\<lparr> ms_swap_rate = 1 / 20, ms_expiry = 1, ms_tenor_start = 1, ms_tenor_end = 2,
             ms_fixed_frequency = 1, ms_market_price = 1 / 1000, ms_option_type = None \<rparr>]
        = Inl (RuntimeError ''Calibration failed: ABNORMAL_TERMINATION_IN_LNSRCH'')"
proof -
  let ?sw = "[\<lparr> ms_swap_rate = 1 / 20, ms_expiry = 1, ms_tenor_start = 1, ms_tenor_end = 2,
             ms_fixed_frequency = 1, ms_market_price = 1 / 1000, ms_option_type = None \<rparr>]"
  let ?res = "\<lparr> success = False, message = ''ABNORMAL_TERMINATION_IN_LNSRCH'',
             result_x = (1 / 10, 1 / 100 :: real), result_fun = 0 :: real \<rparr>"
  have h1: "failing_minimize
       (objective_function logistic_cdf endpoint_solver mock_initial_zcb_pricer ?sw)
       (1 / 10, 1 / 100) ''L-BFGS-B'' [(1 / 100000, None), (1 / 100000, None)] = Inr ?res"
    by (simp add: failing_minimize_def)
  have h2: "\<not> success ?res" by simp
  from calibration_failure_raises_RuntimeError
         [of failing_minimize logistic_cdf endpoint_solver mock_initial_zcb_pricer ?sw ?res,
          OF h1 h2] h1
  show ?thesis by simp
qed

text \<open>
  Claim C3 as stated asks for an error of type \<open>CalibrationError\<close>. With an optimizer that
  reports failure, on the swaption of \<^verbatim>\<open>test_calibrate_logic\<close>, the exception raised is a
  \<^verbatim>\<open>RuntimeError\<close>, whose class name is not \<open>CalibrationError\<close>.
\<close>

theorem calibration_failure_not_CalibrationError:
  "calibrate_logic failing_minimize logistic_cdf endpoint_solver mock_initial_zcb_pricer
          [\<lparr> ms_swap_rate = 1 / 20, ms_expiry = 1, ms_tenor_start = 1, ms_tenor_end = 2,
             ms_fixed_frequency = 1, ms_market_price = 1 / 1000, ms_option_type = None \<rparr>]
        = Inl (RuntimeError ''Calibration failed: ABNORMAL_TERMINATION_IN_LNSRCH'')
   \<and> exception_class (RuntimeError ''Calibration failed: ABNORMAL_TERMINATION_IN_LNSRCH'')
       \<noteq> ''CalibrationError''"
  by (simp add: calibrate_logic_def Let_def failing_minimize_def)

subsection \<open>Simulation\<close>

text \<open>One row of the Euler step, and the invariants of the loop.\<close>

lemma euler_row_same_length:
  assumes "length w = length r"
  shows "euler_row th a s dt r w
         = Inr (map (\<lambda>(r, w). r + (th - a * r) * dt + s * sqrt dt * w) (zip r w))"
  using assms by (simp add: euler_row_def)

lemma euler_row_nth:
  assumes "euler_row th a s dt r w = Inr row" "length w = length r" "j < length r"
  shows "row ! j = r ! j + (th - a * (r ! j)) * dt + s * sqrt dt * (w ! j)"
  using assms by (auto simp add: euler_row_same_length)

lemma euler_row_length:
  assumes "euler_row th a s dt r w = Inr row"
  shows "length row = length r"
  using assms by (auto simp add: euler_row_def split: if_splits)

lemma simulate_loop_length:
  assumes "simulate_loop M dt grid shocks idx pths = Inr out"
  shows "length out = length pths"
  using assms
proof (induction idx arbitrary: pths)
  case Nil
  then show ?case by simp
next
  case (Cons i rest)
  then show ?case
    by (auto simp add: Let_def split: if_splits sum.splits)
qed

lemma simulate_loop_rows:
  assumes "simulate_loop M dt grid shocks idx pths = Inr out"
    and "\<forall>row \<in> set pths. length row = m" "\<forall>i \<in> set idx. i < length pths"
  shows "\<forall>row \<in> set out. length row = m"
  using assms
proof (induction idx arbitrary: pths)
  case Nil
  then show ?case by simp
next
  case (Cons i rest)
  from Cons.prems(1) obtain row where
    row: "euler_row (theta_function M (grid ! i)) (hw_a M) (hw_sigma M) dt (pths ! i)
            (shocks ! i) = Inr row"
    and out: "simulate_loop M dt grid shocks rest (pths[i + 1 := row]) = Inr out"
    by (auto simp add: Let_def split: if_splits sum.splits)
  have "length (pths ! i) = m" using Cons.prems(2,3) by simp
  then have "length row = m" using euler_row_length [OF row] by simp
  then have "\<forall>r \<in> set (pths[i + 1 := row]). length r = m"
    using Cons.prems(2) set_update_subset_insert [of pths "i + 1" row] by auto
  moreover have "\<forall>k \<in> set rest. k < length (pths[i + 1 := row])"
    using Cons.prems(3) by simp
  ultimately show ?case using Cons.IH [OF out] by blast
qed

lemma simulate_loop_unchanged:
  assumes "simulate_loop M dt grid shocks idx pths = Inr out" "\<forall>i \<in> set idx. j \<noteq> i + 1"
  shows "out ! j = pths ! j"
  using assms
proof (induction idx arbitrary: pths)
  case Nil
  then show ?case by simp
next
  case (Cons i rest)
  from Cons.prems(1) obtain row where
    out: "simulate_loop M dt grid shocks rest (pths[i + 1 := row]) = Inr out"
    by (auto simp add: Let_def split: if_splits sum.splits)
  have "out ! j = (pths[i + 1 := row]) ! j"
    using Cons.IH [OF out] Cons.prems(2) by simp
  then show ?case using Cons.prems(2) by simp
qed

lemma simulate_loop_step:
  assumes "simulate_loop M dt grid shocks idx pths = Inr out"
    and "sorted_wrt (<) idx" "k \<in> set idx" "\<forall>i \<in> set idx. i + 1 < length pths"
  shows "euler_row (theta_function M (grid ! k)) (hw_a M) (hw_sigma M) dt (out ! k) (shocks ! k)
         = Inr (out ! (k + 1))"
  using assms
proof (induction idx arbitrary: pths)
  case Nil
  then show ?case by simp
next
  case (Cons i rest)
  from Cons.prems(1) obtain row where
    row: "euler_row (theta_function M (grid ! i)) (hw_a M) (hw_sigma M) dt (pths ! i)
            (shocks ! i) = Inr row"
    and out: "simulate_loop M dt grid shocks rest (pths[i + 1 := row]) = Inr out"
    by (auto simp add: Let_def split: if_splits sum.splits)
  show ?case
  proof (cases "k = i")
    case True
    have later: "\<forall>i' \<in> set rest. i < i'" using Cons.prems(2) by simp
    have "out ! i = (pths[i + 1 := row]) ! i"
      using later by (intro simulate_loop_unchanged [OF out]) auto
    then have a: "out ! i = pths ! i" by simp
    have "out ! (i + 1) = (pths[i + 1 := row]) ! (i + 1)"
      using later by (intro simulate_loop_unchanged [OF out]) auto
    then have b: "out ! (i + 1) = row" using Cons.prems(4) by simp
    show ?thesis using row a b True by simp
  next
    case False
    then have "k \<in> set rest" using Cons.prems(3) by simp
    moreover have "sorted_wrt (<) rest" using Cons.prems(2) by simp
    moreover have "\<forall>i' \<in> set rest. i' + 1 < length (pths[i + 1 := row])"
      using Cons.prems(4) by simp
    ultimately show ?thesis using Cons.IH [OF out] by blast
  qed
qed

lemma simulate_loop_succeeds:
  assumes "\<forall>row \<in> set pths. length row = m" "\<forall>i \<in> set idx. i + 1 < length pths"
    and "\<forall>i \<in> set idx. i < length shocks \<and> length (shocks ! i) = m"
  shows "\<exists>out. simulate_loop M dt grid shocks idx pths = Inr out"
  using assms
proof (induction idx arbitrary: pths)
  case Nil
  then show ?case by simp
next
  case (Cons i rest)
  have len: "length (shocks ! i) = length (pths ! i)"
    using Cons.prems by simp
  define row where "row = map (\<lambda>(r, w). r + (theta_function M (grid ! i) - hw_a M * r) * dt
      + hw_sigma M * sqrt dt * w) (zip (pths ! i) (shocks ! i))"
  have row: "euler_row (theta_function M (grid ! i)) (hw_a M) (hw_sigma M) dt (pths ! i)
            (shocks ! i) = Inr row"
    unfolding row_def by (rule euler_row_same_length [OF len])
  have "length row = m" using euler_row_length [OF row] Cons.prems(1,2) by simp
  then have "\<forall>r \<in> set (pths[i + 1 := row]). length r = m"
    using Cons.prems(1) set_update_subset_insert [of pths "i + 1" row] by auto
  moreover have "\<forall>k \<in> set rest. k + 1 < length (pths[i + 1 := row])"
    using Cons.prems(2) by simp
  moreover have "\<forall>k \<in> set rest. k < length shocks \<and> length (shocks ! k) = m"
    using Cons.prems(3) by simp
  ultimately obtain out where
    "simulate_loop M dt grid shocks rest (pths[i + 1 := row]) = Inr out"
    using Cons.IH by blast
  moreover have "\<not> length shocks \<le> i" using Cons.prems(3) by simp
  ultimately show ?case using row by (simp add: Let_def)
qed

lemma np_linspace_length:
  assumes "0 \<le> num"
  shows "\<exists>grid. np_linspace start stop num = Inr grid \<and> length grid = nat num"
  using assms by (simp add: np_linspace_def)

lemma simulate_logic_result:
  assumes H: "0 < sd_time_horizon sc" and dt: "0 < sd_dt sc"
    and n: "n = nat (\<lfloor>float64_round (sd_time_horizon sc / sd_dt sc)\<rfloor> + 1)"
    and rows: "length shocks = n - 1"
    and cols: "\<forall>row \<in> set shocks. length row = sd_num_paths sc"
  shows "\<exists>res. simulate_logic M sc shocks = Inr res
      \<and> length (paths res) = n
      \<and> (\<forall>row \<in> set (paths res). length row = sd_num_paths sc)
      \<and> length (time_grid res) = n
      \<and> np_linspace 0 (sd_time_horizon sc) (int n) = Inr (time_grid res)
      \<and> paths res ! 0 = replicate (sd_num_paths sc)
           (instantaneous_forward_rate eps (initial_zero_coupon_bond_pricer M))
      \<and> (\<forall>i < n - 1.
            euler_row (theta_function M (time_grid res ! i)) (hw_a M) (hw_sigma M) (sd_dt sc)
              (paths res ! i) (shocks ! i) = Inr (paths res ! (i + 1)))"
proof -
  define m where "m = sd_num_paths sc"
  define r0 where "r0 = instantaneous_forward_rate eps (initial_zero_coupon_bond_pricer M)"
  define Q where "Q = float64_round (sd_time_horizon sc / sd_dt sc)"
  define N where "N = py_int Q + 1"
  have "0 \<le> sd_time_horizon sc / sd_dt sc" using H dt by simp
  then have q: "0 \<le> Q" unfolding Q_def by (rule float64_round_nonneg)
  then have fl: "0 \<le> \<lfloor>Q\<rfloor>" by simp
  have N: "N = \<lfloor>Q\<rfloor> + 1"
    using q by (simp add: N_def py_int_def)
  have Npos: "1 \<le> N" using fl N by simp
  have nN: "n = nat N" using n N by (simp add: Q_def)
  have n1: "nat (N - 1) = n - 1" using nN Npos by simp
  obtain grid where grid: "np_linspace 0 (sd_time_horizon sc) N = Inr grid" "length grid = n"
    using np_linspace_length [of N 0 "sd_time_horizon sc"] Npos nN by auto
  define start where "start = (replicate (nat N) (replicate m (0::real)))[0 := replicate m r0]"
  have start_len: "length start = n" by (simp add: start_def nN)
  have start_rows: "\<forall>row \<in> set start. length row = m"
    unfolding start_def
    using set_update_subset_insert [of "replicate (nat N) (replicate m (0::real))" 0 "replicate m r0"]
    by auto
  have npos: "0 < n" using nN Npos by simp
  have start0: "start ! 0 = replicate m r0" using npos by (simp add: start_def nN)
  define idx where "idx = [0 ..< nat (N - 1)]"
  have idx1: "\<forall>i \<in> set idx. i + 1 < length start"
    using npos by (auto simp add: idx_def n1 start_len)
  have idx2: "\<forall>i \<in> set idx. i < length shocks \<and> length (shocks ! i) = m"
    using rows cols by (auto simp add: idx_def n1 m_def)
  obtain out where out: "simulate_loop M (sd_dt sc) grid shocks idx start = Inr out"
    using simulate_loop_succeeds [OF start_rows idx1 idx2] by blast
  have out_len: "length out = n"
    using simulate_loop_length [OF out] start_len by simp
  have "\<forall>i \<in> set idx. i < length start" using idx1 by auto
  then have out_rows: "\<forall>row \<in> set out. length row = m"
    using simulate_loop_rows [OF out start_rows] by blast
  have out0: "out ! 0 = replicate m r0"
    using simulate_loop_unchanged [OF out, of 0] start0 by simp
  have step: "euler_row (theta_function M (grid ! i)) (hw_a M) (hw_sigma M) (sd_dt sc)
              (out ! i) (shocks ! i) = Inr (out ! (i + 1))" if "i < n - 1" for i
  proof -
    have "sorted_wrt (<) idx" by (simp add: idx_def)
    moreover have "i \<in> set idx" using that by (simp add: idx_def n1)
    ultimately show ?thesis using simulate_loop_step [OF out _ _ idx1] by blast
  qed
  have N0: "N \<noteq> 0" using Npos by simp
  have "simulate_logic M sc shocks = Inr \<lparr> paths = out, time_grid = grid \<rparr>"
    using dt grid(1) out N0
    by (simp add: simulate_logic_def Let_def Q_def [symmetric] N_def [symmetric]
        idx_def [symmetric] start_def [symmetric] m_def [symmetric] r0_def [symmetric])
  moreover have "np_linspace 0 (sd_time_horizon sc) (int n) = Inr grid"
    using grid(1) nN Npos by simp
  ultimately show ?thesis
    using out_len out_rows grid(2) out0 step by (simp add: m_def r0_def)
qed

text \<open>
  The quotient that \<^verbatim>\<open>int\<close> truncates is the double one. For a horizon of 1.0 and the double
  nearest to 0.1, which is a little above one tenth, the exact quotient is below 10 and the
  double quotient is 10: the program allocates 11 rows. For the doubles nearest to 0.3 and
  0.1 the double quotient is below 3: the program allocates 3 rows.
\<close>

lemma double_quotient_1_over_01:
  "\<lfloor>1 / (3602879701896397 / 2 ^ 55) :: real\<rfloor> = 9"
  "\<lfloor>float64_round (1 / (3602879701896397 / 2 ^ 55))\<rfloor> = 10"
proof -
  show "\<lfloor>1 / (3602879701896397 / 2 ^ 55) :: real\<rfloor> = 9"
    by (simp add: floor_eq_iff)
  show "\<lfloor>float64_round (1 / (3602879701896397 / 2 ^ 55))\<rfloor> = 10"
    by (simp only: float64_round_1_over_01) simp
qed

lemma double_quotient_03_over_01:
  "nat (\<lfloor>float64_round ((5404319552844595 / 2 ^ 54) / (3602879701896397 / 2 ^ 55))\<rfloor> + 1) = 3"
proof -
  have "\<lfloor>6755399441055743 / 2 ^ 51 :: real\<rfloor> = 2"
    by (simp add: floor_eq_iff)
  then show ?thesis
    unfolding float64_round_03_over_01 by simp
qed

lemma mock_theta_0: "theta_function mock_calibrated_model 0 = 1 / 200"
proof -
  have e: "0 < eps" "eps \<le> 1" by (simp_all add: eps_def)
  have f: "instantaneous_forward_rate (0 + eps) mock_initial_zcb_pricer = 1 / 20"
    "instantaneous_forward_rate (0 - eps) mock_initial_zcb_pricer = 1 / 20"
    "instantaneous_forward_rate 0 mock_initial_zcb_pricer = 1 / 20"
    using e by (simp_all add: mock_forward_rate)
  have "generate_theta_function (1 / 10) (1 / 100) mock_initial_zcb_pricer 0 = 1 / 200"
    unfolding generate_theta_function_eq f by (simp add: np_exp_0)
  then show ?thesis by (simp add: mock_calibrated_model_def)
qed

text \<open>
  Claim C5. For a scenario with \<open>num_paths \<ge> 1\<close>, \<open>time_horizon > 0\<close>, \<open>dt > 0\<close> and shocks
  of shape \<open>(num_timesteps - 1, num_paths)\<close>, where
  \<open>num_timesteps = floor(time_horizon / dt) + 1\<close> with the quotient \<open>time_horizon / dt\<close> that
  the program computes (the double quotient), the simulation returns; \<open>paths\<close> has
  \<open>num_timesteps\<close> rows of \<open>num_paths\<close> entries, \<open>time_grid\<close> has \<open>num_timesteps\<close> entries, and
  every entry of row 0 is \<open>r0 = instantaneous_forward_rate(1e-5, pricer)\<close>, whatever the
  shocks.
\<close>

theorem simulate_seeds_r0:
  assumes "1 \<le> sd_num_paths scenario" "0 < sd_time_horizon scenario" "0 < sd_dt scenario"
    and "num_timesteps
         = nat (\<lfloor>float64_round (sd_time_horizon scenario / sd_dt scenario)\<rfloor> + 1)"
    and "length correlated_shocks = num_timesteps - 1"
    and "\<forall>row \<in> set correlated_shocks. length row = sd_num_paths scenario"
  shows "\<exists>res. simulate_logic calibrated_model scenario correlated_shocks = Inr res
      \<and> length (paths res) = num_timesteps
      \<and> (\<forall>row \<in> set (paths res). length row = sd_num_paths scenario)
      \<and> length (time_grid res) = num_timesteps
      \<and> (\<forall>j < sd_num_paths scenario.
            paths res ! 0 ! j
            = instantaneous_forward_rate eps (initial_zero_coupon_bond_pricer calibrated_model))"
proof -
  from simulate_logic_result [OF assms(2-6), of calibrated_model] obtain res where
    res: "simulate_logic calibrated_model scenario correlated_shocks = Inr res"
      "length (paths res) = num_timesteps"
      "\<forall>row \<in> set (paths res). length row = sd_num_paths scenario"
      "length (time_grid res) = num_timesteps"
      "paths res ! 0 = replicate (sd_num_paths scenario)
           (instantaneous_forward_rate eps (initial_zero_coupon_bond_pricer calibrated_model))"
    by blast
  show ?thesis
    by (rule exI [of _ res]) (simp add: res)
qed

theorem simulate_seeds_r0_witness:
  "(1::nat) \<le> 10 \<and> (0::real) < 1 \<and> (0::real) < 3602879701896397 / 2 ^ 55
   \<and> (11::nat) = nat (\<lfloor>float64_round (1 / (3602879701896397 / 2 ^ 55))\<rfloor> + 1)
   \<and> length (replicate 10 (replicate 10 (1::real))) = 11 - 1
   \<and> list_all (\<lambda>row. length row = 10) (replicate 10 (replicate 10 (1::real)))
   \<and> (\<exists>res. simulate_logic mock_calibrated_model
               \<lparr> sd_num_paths = 10, sd_time_horizon = 1, sd_dt = 3602879701896397 / 2 ^ 55 \<rparr>
               (replicate 10 (replicate 10 1)) = Inr res
          \<and> length (paths res) = 11
          \<and> list_all (\<lambda>row. length row = 10) (paths res)
          \<and> length (time_grid res) = 11
          \<and> list_all (\<lambda>j. paths res ! 0 ! j = 1 / 20) [0 ..< 10])"
proof -
  let ?sc = "\<lparr> sd_num_paths = 10, sd_time_horizon = 1, sd_dt = 3602879701896397 / 2 ^ 55 \<rparr>"
  have h1: "1 \<le> sd_num_paths ?sc" by simp
  have h2: "0 < sd_time_horizon ?sc" by simp
  have h3: "0 < sd_dt ?sc" by simp
  have q: "(11::nat) = nat (\<lfloor>float64_round (1 / (3602879701896397 / 2 ^ 55))\<rfloor> + 1)"
    unfolding double_quotient_1_over_01(2) by simp
  then have h4: "(11::nat) = nat (\<lfloor>float64_round (sd_time_horizon ?sc / sd_dt ?sc)\<rfloor> + 1)"
    by (simp only: scenario_definition.simps)
  have h5: "length (replicate 10 (replicate 10 (1::real))) = 11 - 1" by simp
  have h6: "\<forall>row \<in> set (replicate 10 (replicate 10 (1::real))). length row = sd_num_paths ?sc"
    by simp
  have e1: "eps \<le> 1000" by (simp add: eps_def)
  have r0: "instantaneous_forward_rate eps (initial_zero_coupon_bond_pricer mock_calibrated_model)
      = 1 / 20"
    using mock_forward_rate [OF e1] by (simp add: mock_calibrated_model_def)
  from simulate_seeds_r0 [OF h1 h2 h3 h4 h5 h6, of mock_calibrated_model] obtain res where
    res: "simulate_logic mock_calibrated_model ?sc (replicate 10 (replicate 10 1)) = Inr res"
      "length (paths res) = 11" "\<forall>row \<in> set (paths res). length row = 10"
      "length (time_grid res) = 11" "\<forall>j < 10. paths res ! 0 ! j = 1 / 20"
    unfolding r0 by auto
  have "list_all (\<lambda>row. length row = 10) (paths res)"
    using res(3) by (simp add: list_all_iff)
  moreover have "list_all (\<lambda>j. paths res ! 0 ! j = 1 / 20) [0 ..< 10]"
    using res(5) by (simp add: list_all_iff)
  ultimately have e: "\<exists>res. simulate_logic mock_calibrated_model ?sc
               (replicate 10 (replicate 10 1)) = Inr res
          \<and> length (paths res) = 11
          \<and> list_all (\<lambda>row. length row = 10) (paths res)
          \<and> length (time_grid res) = 11
          \<and> list_all (\<lambda>j. paths res ! 0 ! j = 1 / 20) [0 ..< 10]"
    using res(1,2,4) by blast
  have l: "list_all (\<lambda>row. length row = 10) (replicate 10 (replicate 10 (1::real)))"
    by (simp add: list_all_iff)
  from e l q show ?thesis by simp
qed

text \<open>
  Claim C6. Under the same hypotheses the simulation returns, and for every step \<open>i\<close> with
  \<open>i + 1\<close> a row of the returned \<open>paths\<close> (that is \<open>i \<le> num_timesteps - 2\<close>) and every path
  \<open>j\<close>, \<open>paths[i+1, j] = paths[i, j] + (theta(time_grid[i]) - a * paths[i, j]) * dt
  + sigma * sqrt(dt) * shocks[i, j]\<close>. Nothing clamps the rate: the witness has a path that is
  negative after the first step, and the second step starts from that negative value.
\<close>

theorem simulate_euler_step:
  assumes "1 \<le> sd_num_paths scenario" "0 < sd_time_horizon scenario" "0 < sd_dt scenario"
    and "num_timesteps
         = nat (\<lfloor>float64_round (sd_time_horizon scenario / sd_dt scenario)\<rfloor> + 1)"
    and "length correlated_shocks = num_timesteps - 1"
    and "\<forall>row \<in> set correlated_shocks. length row = sd_num_paths scenario"
  shows "\<exists>res. simulate_logic calibrated_model scenario correlated_shocks = Inr res
      \<and> length (paths res) = num_timesteps
      \<and> (\<forall>i j. i + 1 < length (paths res) \<and> j < sd_num_paths scenario \<longrightarrow>
            paths res ! (i + 1) ! j
            = paths res ! i ! j
              + (theta_function calibrated_model (time_grid res ! i)
                 - hw_a calibrated_model * (paths res ! i ! j)) * sd_dt scenario
              + hw_sigma calibrated_model * sqrt (sd_dt scenario) * (correlated_shocks ! i ! j))"
proof -
  from simulate_logic_result [OF assms(2-6), of calibrated_model] obtain res where
    res: "simulate_logic calibrated_model scenario correlated_shocks = Inr res"
      "length (paths res) = num_timesteps"
      "\<forall>row \<in> set (paths res). length row = sd_num_paths scenario"
      "\<forall>i < num_timesteps - 1.
          euler_row (theta_function calibrated_model (time_grid res ! i)) (hw_a calibrated_model)
            (hw_sigma calibrated_model) (sd_dt scenario) (paths res ! i) (correlated_shocks ! i)
          = Inr (paths res ! (i + 1))"
    by blast
  have "paths res ! (i + 1) ! j
        = paths res ! i ! j
          + (theta_function calibrated_model (time_grid res ! i)
             - hw_a calibrated_model * (paths res ! i ! j)) * sd_dt scenario
          + hw_sigma calibrated_model * sqrt (sd_dt scenario) * (correlated_shocks ! i ! j)"
    if i: "i + 1 < length (paths res)" and j: "j < sd_num_paths scenario" for i j
  proof -
    have i': "i < num_timesteps - 1" using i res(2) by simp
    have "paths res ! i \<in> set (paths res)" using i by simp
    then have len: "length (paths res ! i) = sd_num_paths scenario" using res(3) by blast
    have "correlated_shocks ! i \<in> set correlated_shocks" using assms(5) i' by simp
    then have a: "length (correlated_shocks ! i) = length (paths res ! i)"
      using assms(6) len by simp
    have b: "j < length (paths res ! i)" using j len by simp
    have c: "euler_row (theta_function calibrated_model (time_grid res ! i))
              (hw_a calibrated_model) (hw_sigma calibrated_model) (sd_dt scenario)
              (paths res ! i) (correlated_shocks ! i) = Inr (paths res ! (i + 1))"
      using res(4) i' by blast
    show ?thesis by (rule euler_row_nth [OF c a b])
  qed
  with res(1,2) show ?thesis by blast
qed

theorem simulate_euler_step_witness:
  "(1::nat) \<le> 1 \<and> (0::real) < 1 / 2 \<and> (0::real) < 1 / 4
   \<and> (3::nat) = nat (\<lfloor>float64_round ((1 / 2) / (1 / 4))\<rfloor> + 1)
   \<and> length [[- 20], [0 :: real]] = 3 - 1
   \<and> list_all (\<lambda>row. length row = 1) [[- 20], [0 :: real]]
   \<and> (\<exists>res. simulate_logic mock_calibrated_model
               \<lparr> sd_num_paths = 1, sd_time_horizon = 1 / 2, sd_dt = 1 / 4 \<rparr>
               [[- 20], [0]] = Inr res
          \<and> length (paths res) = 3
          \<and> paths res ! 0 ! 0 = 1 / 20
          \<and> paths res ! 1 ! 0 = - (1 / 20)
          \<and> paths res ! 2 ! 0
            = paths res ! 1 ! 0
              + (theta_function mock_calibrated_model (time_grid res ! 1)
                 - hw_a mock_calibrated_model * (paths res ! 1 ! 0)) * (1 / 4)
              + hw_sigma mock_calibrated_model * sqrt (1 / 4) * 0)"
proof -
  let ?sc = "\<lparr> sd_num_paths = 1, sd_time_horizon = 1 / 2, sd_dt = 1 / 4 \<rparr>"
  let ?sh = "[[- 20], [0 :: real]]"
  have h1: "1 \<le> sd_num_paths ?sc" by simp
  have h2: "0 < sd_time_horizon ?sc" by simp
  have h3: "0 < sd_dt ?sc" by simp
  have q: "(3::nat) = nat (\<lfloor>float64_round ((1 / 2) / (1 / 4))\<rfloor> + 1)"
    by (simp add: float64_round_small)
  then have h4: "(3::nat) = nat (\<lfloor>float64_round (sd_time_horizon ?sc / sd_dt ?sc)\<rfloor> + 1)"
    by (simp only: scenario_definition.simps)
  have h5: "length ?sh = 3 - 1" by simp
  have h6: "\<forall>row \<in> set ?sh. length row = sd_num_paths ?sc" by simp
  from simulate_logic_result [OF h2 h3 h4 h5 h6, of mock_calibrated_model] obtain res where
    res: "simulate_logic mock_calibrated_model ?sc ?sh = Inr res"
      "np_linspace 0 (sd_time_horizon ?sc) (int 3) = Inr (time_grid res)"
      "paths res ! 0 = replicate (sd_num_paths ?sc)
           (instantaneous_forward_rate eps (initial_zero_coupon_bond_pricer mock_calibrated_model))"
    by blast
  have "np_linspace 0 (sd_time_horizon ?sc) (int 3) = Inr [0, 1 / 4, 1 / 2]"
    by (simp add: np_linspace_def upt_rec)
  with res(2) have "time_grid res = [0, 1 / 4, 1 / 2]" by simp
  then have g0: "time_grid res ! 0 = 0" by simp
  have e1: "eps \<le> 1000" by (simp add: eps_def)
  have p0: "paths res ! 0 ! 0 = 1 / 20"
    using res(3) mock_forward_rate [OF e1] by (simp add: mock_calibrated_model_def)
  have s4: "sqrt (1 / 4 :: real) = 1 / 2" by (simp add: real_sqrt_divide)
  from simulate_euler_step [OF h1 h2 h3 h4 h5 h6, of mock_calibrated_model]
  obtain res' where res': "simulate_logic mock_calibrated_model ?sc ?sh = Inr res'"
    "length (paths res') = 3"
    "\<And>i j. i + 1 < length (paths res') \<Longrightarrow> j < sd_num_paths ?sc \<Longrightarrow>
       paths res' ! (i + 1) ! j = paths res' ! i ! j
          + (theta_function mock_calibrated_model (time_grid res' ! i)
             - hw_a mock_calibrated_model * (paths res' ! i ! j)) * sd_dt ?sc
          + hw_sigma mock_calibrated_model * sqrt (sd_dt ?sc) * (?sh ! i ! j)"
    by blast
  have eq: "res' = res" using res'(1) res(1) by simp
  have len: "length (paths res) = 3" using res'(2) eq by simp
  have ma: "hw_a mock_calibrated_model = 1 / 10" and ms: "hw_sigma mock_calibrated_model = 1 / 100"
    by (simp_all add: mock_calibrated_model_def)
  have "paths res ! (0 + 1) ! 0 = paths res ! 0 ! 0
          + (theta_function mock_calibrated_model (time_grid res ! 0)
             - hw_a mock_calibrated_model * (paths res ! 0 ! 0)) * sd_dt ?sc
          + hw_sigma mock_calibrated_model * sqrt (sd_dt ?sc) * (?sh ! 0 ! 0)"
    using res'(3) [of 0 0] res'(2) unfolding eq by simp
  then have p1: "paths res ! 1 ! 0 = - (1 / 20)"
    unfolding g0 p0 mock_theta_0 ma ms by (simp add: s4)
  have "paths res ! (1 + 1) ! 0 = paths res ! 1 ! 0
          + (theta_function mock_calibrated_model (time_grid res ! 1)
             - hw_a mock_calibrated_model * (paths res ! 1 ! 0)) * sd_dt ?sc
          + hw_sigma mock_calibrated_model * sqrt (sd_dt ?sc) * (?sh ! 1 ! 0)"
    using res'(3) [of 1 0] res'(2) unfolding eq by simp
  then have p2: "paths res ! 2 ! 0 = paths res ! 1 ! 0
              + (theta_function mock_calibrated_model (time_grid res ! 1)
                 - hw_a mock_calibrated_model * (paths res ! 1 ! 0)) * (1 / 4)
              + hw_sigma mock_calibrated_model * sqrt (1 / 4) * 0"
    by (simp add: numeral_2_eq_2)
  have e: "\<exists>res. simulate_logic mock_calibrated_model ?sc ?sh = Inr res
          \<and> length (paths res) = 3
          \<and> paths res ! 0 ! 0 = 1 / 20
          \<and> paths res ! 1 ! 0 = - (1 / 20)
          \<and> paths res ! 2 ! 0
            = paths res ! 1 ! 0
              + (theta_function mock_calibrated_model (time_grid res ! 1)
                 - hw_a mock_calibrated_model * (paths res ! 1 ! 0)) * (1 / 4)
              + hw_sigma mock_calibrated_model * sqrt (1 / 4) * 0"
    using res(1) len p0 p1 p2 by blast
  from e q show ?thesis by simp
qed

end
